theory Spec2Isabelle
  imports Main "HOL-Library.Word"
begin

unbundle bit_operations_syntax

section \<open>Glossy on the CC430: the flood state and its callbacks\<close>

text \<open>
  A shallow embedding of \<^verbatim>\<open>arch/cpu/cc430/glossy.c\<close>. The single global
  \<^verbatim>\<open>glossy_state_t g\<close> becomes a record that every function takes and returns; the
  calls into the radio driver (rf1a) and the timer (rtimer-ext) are appended to a trace, in
  the order in which the C code issues them. Values that the C code reads from the
  hardware (the current time, the RSSI, whether the radio is busy) are arguments.

  Integers have the widths of the C types: \<^verbatim>\<open>uint8_t\<close> is \<open>8 word\<close>,
  \<^verbatim>\<open>uint32_t\<close> is \<open>32 word\<close>. \<^verbatim>\<open>rtimer_ext_clock_t\<close> is declared in
  rtimer-ext.h, which is not among the sources; it is the 64-bit unsigned clock of the
  timer and is taken as \<open>64 word\<close>. Where C promotes both operands of a comparison to
  \<^verbatim>\<open>int\<close> before comparing, the model compares \<open>unat\<close> values.
\<close>

type_synonym u8 = "8 word"
type_synonym u16 = "16 word"
type_synonym u32 = "32 word"
type_synonym rtimer_ext_clock_t = "64 word"

text \<open>
  A \<^verbatim>\<open>uint8_t *\<close> is modelled by the bytes found at the pointer: offset \<open>i\<close> holds
  \<^verbatim>\<open>p[i]\<close>. The caller's payload buffer and the driver's receive buffer are distinct
  objects.
\<close>

type_synonym buffer = "nat \<Rightarrow> u8"

subsection \<open>Compile-time configuration\<close>

text \<open>
  The macros below come from glossy.h and the rf1a configuration, which are not among the
  sources. They are parameters of the model. \<open>NS_TO_RTIMER_EXT_HF_TAU1\<close> stands for the
  constant expression \<^verbatim>\<open>NS_TO_RTIMER_EXT_HF(TAU1)\<close>; \<open>node_id\<close> is the global variable
  of node-id.h.
\<close>

record glossy_conf =
  GLOSSY_CONF_HEADER_BYTE :: u8
  GLOSSY_CONF_PAYLOAD_LEN :: nat
  GLOSSY_MAX_HEADER_LEN :: nat
  GLOSSY_UNKNOWN_N_TX_MAX :: u8
  GLOSSY_UNKNOWN_PAYLOAD_LEN :: u8
  GLOSSY_CONF_ALWAYS_RELAY_CNT :: bool
  GLOSSY_CONF_COLLECT_STATS :: bool
  GLOSSY_CONF_RETRANSMISSION_TIMEOUT :: bool
  GLOSSY_CONF_ALWAYS_SAMPLE_NOISE :: bool
  T_TX_BYTE :: u32
  T_TX_OFFSET :: u32
  T2R :: u32
  TAU1 :: u32
  NS_TO_RTIMER_EXT_HF_32 :: "u32 \<Rightarrow> u32"
  NS_TO_RTIMER_EXT_HF_TAU1 :: rtimer_ext_clock_t
  node_id :: u16

definition SLOT_TIMEOUT_MIN :: u8 where
  "SLOT_TIMEOUT_MIN = 2"

definition TIMEOUT_EXTRA_TICKS :: rtimer_ext_clock_t where
  "TIMEOUT_EXTRA_TICKS = 70"

definition T_SLOT_TOLERANCE :: u32 where
  "T_SLOT_TOLERANCE = 10"

definition GLOSSY_MAX_PACKET_LEN :: "glossy_conf \<Rightarrow> nat" where
  "GLOSSY_MAX_PACKET_LEN cfg = GLOSSY_CONF_PAYLOAD_LEN cfg + GLOSSY_MAX_HEADER_LEN cfg"

definition GLOSSY_HEADER_BYTE_MASK :: u8 where
  "GLOSSY_HEADER_BYTE_MASK = 0xe0"

definition GLOSSY_HEADER_SYNC_MASK :: u8 where
  "GLOSSY_HEADER_SYNC_MASK = 0x10"

definition GLOSSY_HEADER_N_TX_MASK :: u8 where
  "GLOSSY_HEADER_N_TX_MASK = 0x0f"

definition GLOSSY_COMMON_HEADER :: "glossy_conf \<Rightarrow> u8" where
  "GLOSSY_COMMON_HEADER cfg = GLOSSY_CONF_HEADER_BYTE cfg AND GLOSSY_HEADER_BYTE_MASK"

definition SET_PKT_TYPE :: "glossy_conf \<Rightarrow> u8 \<Rightarrow> u8 \<Rightarrow> u8" where
  "SET_PKT_TYPE cfg with_sync n_tx_max0 =
     GLOSSY_COMMON_HEADER cfg
       OR (if with_sync \<noteq> 0 then GLOSSY_HEADER_SYNC_MASK else 0)
       OR (n_tx_max0 AND GLOSSY_HEADER_N_TX_MASK)"

definition GET_COMMON_HEADER :: "u8 \<Rightarrow> u8" where
  "GET_COMMON_HEADER pt = pt AND GLOSSY_HEADER_BYTE_MASK"

definition GET_SYNC :: "u8 \<Rightarrow> u8" where
  "GET_SYNC pt = pt AND GLOSSY_HEADER_SYNC_MASK"

definition GET_N_TX_MAX :: "u8 \<Rightarrow> u8" where
  "GET_N_TX_MAX pt = pt AND GLOSSY_HEADER_N_TX_MASK"

subsection \<open>The flood state\<close>

record glossy_header_t =
  pkt_type :: u8
  relay_cnt :: u8

record glossy_stats_t =
  last_flood_relay_cnt :: u8
  last_flood_rssi_noise :: u8
  last_flood_rssi_sum :: u16
  last_flood_n_rx_started :: u8
  last_flood_n_rx_fail :: u8
  already_counted :: u8
  last_flood_duration :: rtimer_ext_clock_t
  last_flood_t_to_rx :: rtimer_ext_clock_t
  pkt_cnt :: u32
  pkt_cnt_crcok :: u32
  flood_cnt :: u32
  flood_cnt_success :: u32
  error_cnt :: u16

text \<open>
  The field \<open>stats\<close> exists in C only under \<^verbatim>\<open>GLOSSY_CONF_COLLECT_STATS\<close>; without
  it the model carries the field along and never touches it. \<open>payload\<close> holds the bytes
  of the caller's buffer that the C field points to.
\<close>

record glossy_state_t =
  t_ref :: rtimer_ext_clock_t
  t_tx_stop :: rtimer_ext_clock_t
  t_rx_start :: rtimer_ext_clock_t
  t_rx_stop :: rtimer_ext_clock_t
  t_tx_start :: rtimer_ext_clock_t
  T_slot_sum :: rtimer_ext_clock_t
  t_timeout :: rtimer_ext_clock_t
  T_slot_estimated :: u32
  header :: glossy_header_t
  initiator_id :: u16
  payload :: buffer
  payload_len :: u8
  n_T_slot :: u8
  active :: u8
  t_ref_updated :: u8
  header_ok :: u8
  relay_cnt_last_rx :: u8
  relay_cnt_last_tx :: u8
  relay_cnt_t_ref :: u8
  relay_cnt_timeout :: u8
  n_rx :: u8
  n_tx :: u8
  stats :: glossy_stats_t

text \<open>The calls into the radio driver and the timer, with the arguments that matter.\<close>

datatype hw_call =
    Rf1a_go_to_idle
  | Rf1a_go_to_sleep
  | Rf1a_start_tx
  | Rf1a_start_rx
  | Rf1a_write_to_tx_fifo "u8 list" "u8 list"
  | Rf1a_flush_rx_fifo
  | Rf1a_flush_tx_fifo
  | Rf1a_set_rxoff_mode_TX
  | Rf1a_set_txoff_mode_RX
  | Rf1a_set_calibration_mode_MANUAL
  | Rf1a_reconfig_after_sleep
  | Rf1a_manual_calibration
  | Rf1a_set_header_len_rx nat
  | Rf1a_clear_pending_interrupts
  | Rtimer_ext_schedule rtimer_ext_clock_t
  | Rtimer_ext_stop
  | Rtimer_ext_update_enable
  | Rtimer_ext_update_disable
  | Glossy_disable_interrupts
  | Glossy_enable_interrupts

record node =
  g :: glossy_state_t
  calls :: "hw_call list"

definition hw :: "hw_call \<Rightarrow> node \<Rightarrow> node" where
  "hw c s = s\<lparr>calls := calls s @ [c]\<rparr>"

definition IS_INITIATOR :: "glossy_conf \<Rightarrow> glossy_state_t \<Rightarrow> bool" where
  "IS_INITIATOR cfg gs = (initiator_id gs = node_id cfg)"

definition WITH_SYNC :: "glossy_state_t \<Rightarrow> bool" where
  "WITH_SYNC gs = (GET_SYNC (pkt_type (header gs)) \<noteq> 0)"

definition WITH_RELAY_CNT :: "glossy_conf \<Rightarrow> glossy_state_t \<Rightarrow> bool" where
  "WITH_RELAY_CNT cfg gs = (if GLOSSY_CONF_ALWAYS_RELAY_CNT cfg then True else WITH_SYNC gs)"

text \<open>
  The macro \<^verbatim>\<open>GLOSSY_HEADER_LEN(pkt_type)\<close> ignores its argument: it reads the sync
  bit of the local header \<^verbatim>\<open>g.header.pkt_type\<close>.
\<close>

definition GLOSSY_HEADER_LEN :: "glossy_conf \<Rightarrow> glossy_state_t \<Rightarrow> nat" where
  "GLOSSY_HEADER_LEN cfg gs = (if WITH_SYNC gs \<or> WITH_RELAY_CNT cfg gs then 2 else 1)"

text \<open>The first \<open>n\<close> bytes at a pointer, as the driver copies them into the TX FIFO.\<close>

definition bytes_of :: "buffer \<Rightarrow> nat \<Rightarrow> u8 list" where
  "bytes_of p n = map p [0..<n]"

definition header_bytes :: "glossy_header_t \<Rightarrow> buffer" where
  "header_bytes h = (\<lambda>i. if i = 0 then pkt_type h else relay_cnt h)"

text \<open>\<^verbatim>\<open>memcpy(dst, src, n)\<close> on two buffers that do not overlap.\<close>

definition memcpy :: "buffer \<Rightarrow> buffer \<Rightarrow> nat \<Rightarrow> buffer" where
  "memcpy dst src n = (\<lambda>i. if i < n then src i else dst i)"

subsection \<open>Helper functions\<close>

text \<open>
  \<^verbatim>\<open>return 0\<close> inside the header check is the value \<open>None\<close> of the first stage. The
  comparison of the payload length is made on \<^verbatim>\<open>int\<close> in C, so the difference
  \<^verbatim>\<open>pkt_len - GLOSSY_HEADER_LEN\<close> can be negative.
\<close>

definition process_glossy_header ::
  "glossy_conf \<Rightarrow> buffer \<Rightarrow> u8 \<Rightarrow> u8 \<Rightarrow> node \<Rightarrow> node \<times> u8" where
  "process_glossy_header cfg pkt pkt_len crc_ok s =
    (let rcvd_header = \<lparr>pkt_type = pkt 0, relay_cnt = pkt 1\<rparr> in
     case (if header_ok (g s) = 0 then
             (if GET_COMMON_HEADER (pkt_type rcvd_header) \<noteq> GLOSSY_COMMON_HEADER cfg then None
              else if GET_SYNC (pkt_type (header (g s))) \<noteq> GET_SYNC (pkt_type rcvd_header)
                then None
              else if GET_N_TX_MAX (pkt_type (header (g s))) \<noteq> GLOSSY_UNKNOWN_N_TX_MAX cfg \<and>
                      GET_N_TX_MAX (pkt_type (header (g s))) \<noteq> GET_N_TX_MAX (pkt_type rcvd_header)
                then None
              else if (payload_len (g s) \<noteq> GLOSSY_UNKNOWN_PAYLOAD_LEN cfg \<and>
                       int (unat (payload_len (g s))) \<noteq>
                         int (unat pkt_len) - int (GLOSSY_HEADER_LEN cfg (g s))) \<or>
                      unat pkt_len > GLOSSY_CONF_PAYLOAD_LEN cfg + GLOSSY_MAX_HEADER_LEN cfg
                then None
              else if unat pkt_len > GLOSSY_CONF_PAYLOAD_LEN cfg + GLOSSY_MAX_HEADER_LEN cfg
                then None
              else Some (s\<lparr>g := (g s)\<lparr>header_ok := 1\<rparr>\<rparr>))
           else Some s) of
       None \<Rightarrow> (s, 0)
     | Some s1 \<Rightarrow>
         if crc_ok \<noteq> 0 then
           (if unat pkt_len > GLOSSY_CONF_PAYLOAD_LEN cfg + GLOSSY_MAX_HEADER_LEN cfg
            then (s1, 0)
            else
              (let g1 = (g s1)\<lparr>header := rcvd_header\<rparr>;
                   g2 = g1\<lparr>payload_len := pkt_len - of_nat (GLOSSY_HEADER_LEN cfg g1)\<rparr>
               in (hw (Rf1a_set_header_len_rx (GLOSSY_HEADER_LEN cfg g2)) (s1\<lparr>g := g2\<rparr>), 1)))
         else (s1, 1))"

definition estimate_T_slot :: "glossy_conf \<Rightarrow> u8 \<Rightarrow> u32" where
  "estimate_T_slot cfg pkt_len =
    (let T_tx_estim = T_TX_BYTE cfg * (ucast pkt_len + 3) + T_TX_OFFSET cfg
     in NS_TO_RTIMER_EXT_HF_32 cfg (T_tx_estim + T2R cfg - TAU1 cfg))"

definition update_t_ref :: "rtimer_ext_clock_t \<Rightarrow> u8 \<Rightarrow> glossy_state_t \<Rightarrow> glossy_state_t" where
  "update_t_ref t rc gs = gs\<lparr>t_ref := t, t_ref_updated := 1, relay_cnt_t_ref := rc\<rparr>"

text \<open>
  Both bounds are computed in \<^verbatim>\<open>uint32_t\<close>, so \<^verbatim>\<open>T_slot_estimated - 10\<close> wraps when
  the estimate is below 10.
\<close>

definition add_T_slot_measurement :: "u32 \<Rightarrow> glossy_state_t \<Rightarrow> glossy_state_t" where
  "add_T_slot_measurement T_slot_measured gs =
    (if T_slot_measured > T_slot_estimated gs - T_SLOT_TOLERANCE \<and>
        T_slot_measured < T_slot_estimated gs + T_SLOT_TOLERANCE
     then gs\<lparr>T_slot_sum := T_slot_sum gs + ucast T_slot_measured, n_T_slot := n_T_slot gs + 1\<rparr>
     else gs)"

subsection \<open>The Glossy interface\<close>

text \<open>
  \<open>now\<close> is the value that \<^verbatim>\<open>rtimer_ext_now_hf()\<close> returns inside
  \<^verbatim>\<open>glossy_stop\<close>. The product \<^verbatim>\<open>g.relay_cnt_t_ref * g.T_slot_sum\<close> is a 64-bit
  product, divided afterwards; \<^verbatim>\<open>(uint32_t)g.relay_cnt_t_ref * g.T_slot_estimated\<close> is
  a 32-bit product.
\<close>

definition glossy_stop :: "glossy_conf \<Rightarrow> rtimer_ext_clock_t \<Rightarrow> node \<Rightarrow> node \<times> u8" where
  "glossy_stop cfg now s =
    (if active (g s) \<noteq> 0 then
       (let s1 = hw Rf1a_clear_pending_interrupts (hw Rf1a_go_to_sleep
                   (hw Rf1a_flush_tx_fifo (hw Rf1a_flush_rx_fifo (hw Rtimer_ext_stop s))));
            g1 = (g s1)\<lparr>active := 0\<rparr>;
            g2 = (if t_ref_updated g1 \<noteq> 0 then
                    (if n_T_slot g1 > 0
                     then g1\<lparr>t_ref := t_ref g1 -
                            (ucast (relay_cnt_t_ref g1) * T_slot_sum g1) div ucast (n_T_slot g1)\<rparr>
                     else g1\<lparr>t_ref := t_ref g1 -
                            ucast ((ucast (relay_cnt_t_ref g1) :: u32) * T_slot_estimated g1)\<rparr>)
                  else g1);
            g3 = (if GLOSSY_CONF_COLLECT_STATS cfg then
                    (let st1 = (stats g2)\<lparr>last_flood_duration :=
                                  now - last_flood_duration (stats g2)\<rparr>;
                         st2 = (if \<not> IS_INITIATOR cfg g2 then
                                  (let st1a = (if last_flood_n_rx_started st1 \<noteq> 0
                                               then st1\<lparr>flood_cnt := flood_cnt st1 + 1\<rparr>
                                               else st1)
                                   in if n_rx g2 \<noteq> 0
                                      then st1a\<lparr>flood_cnt_success := flood_cnt_success st1a + 1\<rparr>
                                      else st1a)
                                else st1)
                     in g2\<lparr>stats := st2\<rparr>)
                  else g2);
            s2 = hw Rtimer_ext_update_enable (hw Glossy_enable_interrupts (s1\<lparr>g := g3\<rparr>))
        in (s2, n_rx (g s2)))
     else (s, n_rx (g s)))"

text \<open>
  The two rates divide by a counter. A division by zero is undefined in C; the model makes
  it the value \<open>None\<close>, so that a guarded division is one that always yields \<open>Some\<close>.
\<close>

definition udiv64 :: "64 word \<Rightarrow> 64 word \<Rightarrow> 64 word option" where
  "udiv64 a b = (if b = 0 then None else Some (a div b))"

definition glossy_get_per :: "glossy_state_t \<Rightarrow> u16 option" where
  "glossy_get_per gs =
    (if pkt_cnt (stats gs) \<noteq> 0 then
       (case udiv64 (ucast (pkt_cnt_crcok (stats gs)) * 10000) (ucast (pkt_cnt (stats gs))) of
          None \<Rightarrow> None
        | Some q \<Rightarrow> Some (10000 - ucast q))
     else Some 0)"

definition glossy_get_fsr :: "glossy_state_t \<Rightarrow> u16 option" where
  "glossy_get_fsr gs =
    (if flood_cnt (stats gs) \<noteq> 0 then
       (case udiv64 (ucast (flood_cnt_success (stats gs)) * 10000) (ucast (flood_cnt (stats gs))) of
          None \<Rightarrow> None
        | Some q \<Rightarrow> Some (ucast q))
     else Some 10000)"

subsection \<open>The radio callbacks\<close>

text \<open>
  The block that counts a failed reception once per packet is written three times in the
  C code (in \<^verbatim>\<open>glossy_header_received\<close>, \<^verbatim>\<open>glossy_rx_ended\<close> and
  \<^verbatim>\<open>glossy_rx_failed\<close>), each time under \<^verbatim>\<open>GLOSSY_CONF_COLLECT_STATS\<close>.
\<close>

definition count_rx_fail :: "glossy_conf \<Rightarrow> glossy_state_t \<Rightarrow> glossy_state_t" where
  "count_rx_fail cfg gs =
    (if GLOSSY_CONF_COLLECT_STATS cfg then
       (if already_counted (stats gs) = 0
        then gs\<lparr>stats := (stats gs)\<lparr>last_flood_n_rx_fail := last_flood_n_rx_fail (stats gs) + 1,
                                       already_counted := 1\<rparr>\<rparr>
        else gs)
     else gs)"

definition glossy_rx_started :: "glossy_conf \<Rightarrow> rtimer_ext_clock_t \<Rightarrow> node \<Rightarrow> node" where
  "glossy_rx_started cfg timestamp s =
    (let s1 = hw Rtimer_ext_update_disable s;
         g1 = (g s1)\<lparr>t_rx_start := timestamp, header_ok := 0\<rparr>;
         g2 = (if GLOSSY_CONF_COLLECT_STATS cfg then
                 (let st1 = (stats g1)\<lparr>already_counted := 0, pkt_cnt := pkt_cnt (stats g1) + 1\<rparr>;
                      st2 = (if last_flood_n_rx_started st1 = 0
                             then st1\<lparr>last_flood_t_to_rx := timestamp - last_flood_duration st1\<rparr>
                             else st1)
                  in g1\<lparr>stats := st2\<lparr>last_flood_n_rx_started := last_flood_n_rx_started st2 + 1\<rparr>\<rparr>)
               else g1);
         s2 = s1\<lparr>g := g2\<rparr>
     in if IS_INITIATOR cfg g2 then hw Rtimer_ext_stop s2 else s2)"

definition glossy_tx_started :: "rtimer_ext_clock_t \<Rightarrow> node \<Rightarrow> node" where
  "glossy_tx_started timestamp s = s\<lparr>g := (g s)\<lparr>t_tx_start := timestamp\<rparr>\<rparr>"

definition glossy_rx_failed :: "glossy_conf \<Rightarrow> rtimer_ext_clock_t \<Rightarrow> node \<Rightarrow> node" where
  "glossy_rx_failed cfg timestamp s =
    (let s1 = hw Rtimer_ext_update_enable (s\<lparr>g := count_rx_fail cfg (g s)\<rparr>)
     in if active (g s1) \<noteq> 0 then hw Rf1a_start_rx (hw Rf1a_flush_rx_fifo s1) else s1)"

text \<open>
  The C code calls \<^verbatim>\<open>rf1a_cb_rx_failed\<close> when a header is rejected; that is the
  function above under \<^verbatim>\<open>GLOSSY_CONF_USE_RF1A_CALLBACKS\<close>.
\<close>

definition glossy_header_received ::
  "glossy_conf \<Rightarrow> rtimer_ext_clock_t \<Rightarrow> buffer \<Rightarrow> u8 \<Rightarrow> node \<Rightarrow> node" where
  "glossy_header_received cfg timestamp hdr packet_len s =
    (case process_glossy_header cfg hdr packet_len 0 s of
       (s1, ok) \<Rightarrow>
         if ok = 0 then glossy_rx_failed cfg timestamp (s1\<lparr>g := count_rx_fail cfg (g s1)\<rparr>)
         else s1)"

text \<open>
  \<^verbatim>\<open>glossy_rx_ended\<close> is a long function; its blocks are defined one by one, in the
  order of the C code. \<open>now\<close> is what \<^verbatim>\<open>rtimer_ext_now_hf()\<close> returns if the
  callback stops the flood, \<open>rssi\<close> is what \<^verbatim>\<open>rf1a_get_last_packet_rssi()\<close>
  returns (an \<^verbatim>\<open>int8_t\<close>), \<open>payload0\<close> is the local pointer
  \<^verbatim>\<open>payload = pkt + GLOSSY_HEADER_LEN(g.header.pkt_type)\<close> and \<open>relay_cnt0\<close> the
  local variable \<^verbatim>\<open>relay_cnt\<close>.

  The statements before the call of \<^verbatim>\<open>process_glossy_header\<close>:
\<close>

definition rx_ended_pre :: "glossy_conf \<Rightarrow> rtimer_ext_clock_t \<Rightarrow> node \<Rightarrow> node" where
  "rx_ended_pre cfg timestamp s =
    (let s0 = hw Rtimer_ext_update_enable s;
         g0 = (g s0)\<lparr>t_rx_stop := timestamp\<rparr>;
         g0a = (if GLOSSY_CONF_COLLECT_STATS cfg
                then g0\<lparr>stats := (stats g0)\<lparr>pkt_cnt_crcok := pkt_cnt_crcok (stats g0) + 1\<rparr>\<rparr>
                else g0)
     in s0\<lparr>g := g0a\<rparr>)"

text \<open>Increment the relay counter; then relay the packet or stop the flood.\<close>

definition rx_ended_relay ::
  "glossy_conf \<Rightarrow> rtimer_ext_clock_t \<Rightarrow> buffer \<Rightarrow> node \<Rightarrow> node" where
  "rx_ended_relay cfg now payload0 s1 =
    (let s2 = s1\<lparr>g := (g s1)\<lparr>header :=
                 (header (g s1))\<lparr>relay_cnt := relay_cnt (header (g s1)) + 1\<rparr>\<rparr>\<rparr>
     in if GET_N_TX_MAX (pkt_type (header (g s2))) = 0 \<or>
           n_tx (g s2) < GET_N_TX_MAX (pkt_type (header (g s2)))
        then hw (Rf1a_write_to_tx_fifo
                   (bytes_of (header_bytes (header (g s2))) (GLOSSY_HEADER_LEN cfg (g s2)))
                   (bytes_of payload0 (unat (payload_len (g s2))))) s2
        else fst (glossy_stop cfg now s2))"

text \<open>The statistics of a good packet, under \<^verbatim>\<open>GLOSSY_CONF_COLLECT_STATS\<close>.\<close>

definition rx_ended_stats :: "glossy_conf \<Rightarrow> u8 \<Rightarrow> u8 \<Rightarrow> glossy_state_t \<Rightarrow> glossy_state_t" where
  "rx_ended_stats cfg relay_cnt0 rssi gs =
    (if GLOSSY_CONF_COLLECT_STATS cfg then
       (let st1 = (if WITH_RELAY_CNT cfg gs \<and> n_rx gs = 0
                   then (stats gs)\<lparr>last_flood_relay_cnt := relay_cnt0\<rparr>
                   else stats gs)
        in gs\<lparr>stats := st1\<lparr>last_flood_rssi_sum := last_flood_rssi_sum st1 + scast rssi\<rparr>\<rparr>)
     else gs)"

text \<open>Increment the reception counter; a receiver stores the payload when it becomes 1.\<close>

definition rx_ended_count :: "glossy_conf \<Rightarrow> buffer \<Rightarrow> glossy_state_t \<Rightarrow> glossy_state_t" where
  "rx_ended_count cfg payload0 gs =
    (let g5 = gs\<lparr>n_rx := n_rx gs + 1\<rparr>
     in if \<not> IS_INITIATOR cfg g5 \<and> n_rx g5 = 1
        then g5\<lparr>payload := memcpy (payload g5) payload0 (unat (payload_len g5))\<rparr>
        else g5)"

text \<open>
  The block under \<^verbatim>\<open>if(WITH_SYNC())\<close>. The comparison
  \<^verbatim>\<open>g.relay_cnt_last_rx == g.relay_cnt_last_tx + 1\<close> is made on \<^verbatim>\<open>int\<close>, without
  wrap-around.
\<close>

definition rx_ended_sync :: "glossy_conf \<Rightarrow> glossy_state_t \<Rightarrow> glossy_state_t" where
  "rx_ended_sync cfg g6 =
    (if WITH_SYNC g6 then
       (let g7a = g6\<lparr>relay_cnt_last_rx := relay_cnt (header g6) - 1\<rparr>;
            g7b = (if t_ref_updated g7a = 0 then
                     (let u = update_t_ref (t_rx_start g7a - NS_TO_RTIMER_EXT_HF_TAU1 cfg)
                                (relay_cnt (header g7a) - 1) g7a
                      in u\<lparr>T_slot_estimated := estimate_T_slot cfg
                             (of_nat (GLOSSY_HEADER_LEN cfg u) + payload_len u)\<rparr>)
                   else g7a)
        in if unat (relay_cnt_last_rx g7b) = unat (relay_cnt_last_tx g7b) + 1 \<and> n_tx g7b > 0
           then add_T_slot_measurement
                  (ucast (t_rx_start g7b - t_tx_start g7b - NS_TO_RTIMER_EXT_HF_TAU1 cfg)) g7b
           else g7b)
     else g6)"

text \<open>The branch taken when \<^verbatim>\<open>process_glossy_header\<close> returns a non-zero value.\<close>

definition rx_ended_accepted ::
  "glossy_conf \<Rightarrow> rtimer_ext_clock_t \<Rightarrow> u8 \<Rightarrow> buffer \<Rightarrow> node \<Rightarrow> node" where
  "rx_ended_accepted cfg now rssi pkt s1 =
    (let payload0 = (\<lambda>i. pkt (GLOSSY_HEADER_LEN cfg (g s1) + i));
         relay_cnt0 = relay_cnt (header (g s1));
         s3 = rx_ended_relay cfg now payload0 s1
     in s3\<lparr>g := rx_ended_sync cfg
                   (rx_ended_count cfg payload0 (rx_ended_stats cfg relay_cnt0 rssi (g s3)))\<rparr>)"

definition glossy_rx_ended ::
  "glossy_conf \<Rightarrow> rtimer_ext_clock_t \<Rightarrow> u8 \<Rightarrow> rtimer_ext_clock_t \<Rightarrow> buffer \<Rightarrow> u8 \<Rightarrow> node \<Rightarrow> node"
  where
  "glossy_rx_ended cfg now rssi timestamp pkt pkt_len s =
    (case process_glossy_header cfg pkt pkt_len 1 (rx_ended_pre cfg timestamp s) of
       (s1, ok) \<Rightarrow>
         if ok \<noteq> 0 then rx_ended_accepted cfg now rssi pkt s1
         else glossy_rx_failed cfg timestamp (s1\<lparr>g := count_rx_fail cfg (g s1)\<rparr>))"

text \<open>
  \<^verbatim>\<open>timeout_expired\<close> is the timer callback; \<open>busy\<close> is what \<^verbatim>\<open>rf1a_is_busy()\<close>
  returns and \<open>rt_time\<close> is \<^verbatim>\<open>rt->time\<close>. Its return value is always 0 and is left out.
\<close>

definition timeout_expired :: "glossy_conf \<Rightarrow> bool \<Rightarrow> rtimer_ext_clock_t \<Rightarrow> node \<Rightarrow> node" where
  "timeout_expired cfg busy rt_time s =
    (if \<not> busy then
       (let s1 = hw Rf1a_start_tx s;
            g1 = (g s1)\<lparr>header := (header (g s1))\<lparr>relay_cnt := relay_cnt_timeout (g s1)\<rparr>\<rparr>;
            s2 = hw (Rf1a_write_to_tx_fifo
                       (bytes_of (header_bytes (header g1)) (GLOSSY_HEADER_LEN cfg g1))
                       (bytes_of (payload g1) (unat (payload_len g1)))) (s1\<lparr>g := g1\<rparr>)
        in s2\<lparr>g := (g s2)\<lparr>t_timeout := rt_time\<rparr>\<rparr>)
     else
       (let g1 = (g s)\<lparr>relay_cnt_timeout := relay_cnt_timeout (g s) + 1\<rparr>
        in hw (Rtimer_ext_schedule (rt_time + ucast (T_slot_estimated g1))) (s\<lparr>g := g1\<rparr>)))"

definition schedule_timeout :: "glossy_conf \<Rightarrow> node \<Rightarrow> node" where
  "schedule_timeout cfg s =
    (let slot_timeout = SLOT_TIMEOUT_MIN;
         g1 = (if WITH_RELAY_CNT cfg (g s)
               then (g s)\<lparr>relay_cnt_timeout := relay_cnt (header (g s)) + slot_timeout\<rparr>
               else g s)
     in hw (Rtimer_ext_schedule
              (t_timeout g1 + ucast ((ucast slot_timeout :: u32) * T_slot_estimated g1)))
           (s\<lparr>g := g1\<rparr>))"

text \<open>The block under \<^verbatim>\<open>if(WITH_SYNC())\<close> of \<^verbatim>\<open>glossy_tx_ended\<close>.\<close>

definition tx_ended_sync :: "glossy_conf \<Rightarrow> glossy_state_t \<Rightarrow> glossy_state_t" where
  "tx_ended_sync cfg g1 =
    (if WITH_SYNC g1 then
       (let g2a = g1\<lparr>relay_cnt_last_tx := relay_cnt (header g1)\<rparr>;
            g2b = (if t_ref_updated g2a = 0
                   then update_t_ref (t_tx_start g2a) (relay_cnt (header g2a)) g2a
                   else g2a)
        in if unat (relay_cnt_last_tx g2b) = unat (relay_cnt_last_rx g2b) + 1 \<and> n_rx g2b > 0
           then add_T_slot_measurement
                  (ucast (t_tx_start g2b - t_rx_start g2b + NS_TO_RTIMER_EXT_HF_TAU1 cfg)) g2b
           else g2b)
     else g1)"

definition glossy_tx_ended ::
  "glossy_conf \<Rightarrow> rtimer_ext_clock_t \<Rightarrow> rtimer_ext_clock_t \<Rightarrow> node \<Rightarrow> node" where
  "glossy_tx_ended cfg now timestamp s =
    (let g1 = (g s)\<lparr>t_tx_stop := timestamp\<rparr>;
         g2 = tx_ended_sync cfg g1;
         g3 = g2\<lparr>n_tx := n_tx g2 + 1\<rparr>;
         s3 = s\<lparr>g := g3\<rparr>
     in if n_tx g3 = GET_N_TX_MAX (pkt_type (header g3)) \<and>
           (GET_N_TX_MAX (pkt_type (header g3)) > 0 \<or> \<not> IS_INITIATOR cfg g3)
        then fst (glossy_stop cfg now s3)
        else if GLOSSY_CONF_RETRANSMISSION_TIMEOUT cfg then
          (if IS_INITIATOR cfg g3 \<and> n_rx g3 = 0 then schedule_timeout cfg s3 else s3)
        else s3)"

definition glossy_rx_tx_error :: "glossy_conf \<Rightarrow> rtimer_ext_clock_t \<Rightarrow> node \<Rightarrow> node" where
  "glossy_rx_tx_error cfg timestamp s =
    (let g1 = (if GLOSSY_CONF_COLLECT_STATS cfg
               then (g s)\<lparr>stats := (stats (g s))\<lparr>error_cnt := error_cnt (stats (g s)) + 1\<rparr>\<rparr>
               else g s);
         s1 = hw Rtimer_ext_update_enable (s\<lparr>g := g1\<rparr>)
     in if active (g s1) \<noteq> 0
        then hw Rf1a_start_rx (hw Rf1a_flush_tx_fifo (hw Rf1a_flush_rx_fifo s1))
        else s1)"

subsection \<open>Starting a flood\<close>

text \<open>
  What \<^verbatim>\<open>glossy_start\<close> reads from the hardware: the three values of
  \<^verbatim>\<open>rtimer_ext_now_hf()\<close> (for the timeout, for the flood duration, and inside
  \<^verbatim>\<open>glossy_stop\<close> when the packet is too long), and the noise floor, which is
  \<open>Some\<close> value of \<^verbatim>\<open>rf1a_get_rssi()\<close> when the RSSI became valid before the
  bounded wait ran out and \<open>None\<close> otherwise. The two bounded busy-waits and the setup
  delay of \<^verbatim>\<open>GLOSSY_CONF_SETUPTIME_WITH_SYNC\<close> change no field of the state.
\<close>

record start_reads =
  now_hf_timeout :: rtimer_ext_clock_t
  now_hf_duration :: rtimer_ext_clock_t
  now_hf_stop :: rtimer_ext_clock_t
  rssi_noise :: "u8 option"

definition glossy_start ::
  "glossy_conf \<Rightarrow> start_reads \<Rightarrow> u16 \<Rightarrow> buffer \<Rightarrow> u8 \<Rightarrow> u8 \<Rightarrow> u8 \<Rightarrow> u8 \<Rightarrow> node \<Rightarrow> node" where
  "glossy_start cfg rd initiator_id0 payload0 payload_len0 n_tx_max0 with_sync with_rf_cal s =
    (let s1 = hw Glossy_disable_interrupts s;
         g1 = (g s1)\<lparr>active := 1, initiator_id := initiator_id0, payload := payload0,
                      payload_len := payload_len0, n_rx := 0, n_tx := 0,
                      relay_cnt_last_rx := 0, relay_cnt_last_tx := 0, t_ref_updated := 0,
                      T_slot_sum := 0, n_T_slot := 0, T_slot_estimated := 0\<rparr>;
         g2 = (if GLOSSY_CONF_COLLECT_STATS cfg then
                 g1\<lparr>stats := (stats g1)\<lparr>last_flood_relay_cnt := 0, last_flood_n_rx_started := 0,
                                          last_flood_n_rx_fail := 0, last_flood_rssi_sum := 0,
                                          last_flood_t_to_rx := 0, last_flood_duration := 0,
                                          already_counted := 0\<rparr>\<rparr>
               else g1);
         g3 = g2\<lparr>header := \<lparr>pkt_type = SET_PKT_TYPE cfg with_sync n_tx_max0, relay_cnt = 0\<rparr>\<rparr>;
         s2 = hw Rf1a_set_calibration_mode_MANUAL (hw Rf1a_set_txoff_mode_RX
                (hw Rf1a_set_rxoff_mode_TX (hw Rf1a_go_to_idle (s1\<lparr>g := g3\<rparr>))));
         s3 = hw Rf1a_reconfig_after_sleep s2;
         s4 = (if with_rf_cal \<noteq> 0 then hw Rf1a_manual_calibration s3 else s3);
         s5 = hw (Rf1a_set_header_len_rx (GLOSSY_HEADER_LEN cfg (g s4))) s4
     in if IS_INITIATOR cfg (g s5) then
          (if unat (payload_len (g s5)) + GLOSSY_HEADER_LEN cfg (g s5) > GLOSSY_MAX_PACKET_LEN cfg
           then fst (glossy_stop cfg (now_hf_stop rd) s5)
           else
             (let g6 = (g s5)\<lparr>t_timeout := now_hf_timeout rd + TIMEOUT_EXTRA_TICKS\<rparr>;
                  s6 = hw Rf1a_start_tx (s5\<lparr>g := g6\<rparr>);
                  g7 = (if GLOSSY_CONF_COLLECT_STATS cfg
                        then (g s6)\<lparr>stats := (stats (g s6))\<lparr>last_flood_duration :=
                                                   now_hf_duration rd\<rparr>\<rparr>
                        else g s6);
                  s7 = hw (Rf1a_write_to_tx_fifo
                             (bytes_of (header_bytes (header g7)) (GLOSSY_HEADER_LEN cfg g7))
                             (bytes_of (payload g7) (unat (payload_len g7)))) (s6\<lparr>g := g7\<rparr>)
              in s7\<lparr>g := (g s7)\<lparr>relay_cnt_timeout := 0\<rparr>\<rparr>))
        else
          (let s6 = hw Rf1a_start_rx s5
           in if GLOSSY_CONF_COLLECT_STATS cfg then
                (let g7 = (g s6)\<lparr>stats := (stats (g s6))\<lparr>last_flood_duration :=
                                                now_hf_duration rd\<rparr>\<rparr>;
                     g8 = (if GLOSSY_CONF_ALWAYS_SAMPLE_NOISE cfg \<or> with_sync \<noteq> 0 then
                             (case rssi_noise rd of
                                Some v \<Rightarrow> g7\<lparr>stats := (stats g7)\<lparr>last_flood_rssi_noise := v\<rparr>\<rparr>
                              | None \<Rightarrow> g7)
                           else g7)
                 in s6\<lparr>g := g8\<rparr>)
              else s6))"

text \<open>
  \<^verbatim>\<open>static glossy_state_t g;\<close> has static storage, so every field starts at zero; the
  payload pointer is null and stands for no bytes until \<^verbatim>\<open>glossy_start\<close> sets it.
\<close>

definition glossy_state_zero :: glossy_state_t where
  "glossy_state_zero =
    \<lparr>t_ref = 0, t_tx_stop = 0, t_rx_start = 0, t_rx_stop = 0, t_tx_start = 0, T_slot_sum = 0,
     t_timeout = 0, T_slot_estimated = 0, header = \<lparr>pkt_type = 0, relay_cnt = 0\<rparr>,
     initiator_id = 0, payload = (\<lambda>i. 0), payload_len = 0, n_T_slot = 0, active = 0,
     t_ref_updated = 0, header_ok = 0, relay_cnt_last_rx = 0, relay_cnt_last_tx = 0,
     relay_cnt_t_ref = 0, relay_cnt_timeout = 0, n_rx = 0, n_tx = 0,
     stats = \<lparr>last_flood_relay_cnt = 0, last_flood_rssi_noise = 0, last_flood_rssi_sum = 0,
              last_flood_n_rx_started = 0, last_flood_n_rx_fail = 0, already_counted = 0,
              last_flood_duration = 0, last_flood_t_to_rx = 0, pkt_cnt = 0, pkt_cnt_crcok = 0,
              flood_cnt = 0, flood_cnt_success = 0, error_cnt = 0\<rparr>\<rparr>"

definition node_zero :: node where
  "node_zero = \<lparr>g = glossy_state_zero, calls = []\<rparr>"

subsection \<open>Sequences of callbacks\<close>

text \<open>
  One value per interrupt that the radio driver or the timer can deliver, with the
  arguments of the callback and the hardware values that it reads.
\<close>

datatype event =
    Rx_started rtimer_ext_clock_t
  | Tx_started rtimer_ext_clock_t
  | Header_received rtimer_ext_clock_t buffer u8
  | Rx_ended rtimer_ext_clock_t u8 rtimer_ext_clock_t buffer u8
  | Tx_ended rtimer_ext_clock_t rtimer_ext_clock_t
  | Rx_failed rtimer_ext_clock_t
  | Rx_tx_error rtimer_ext_clock_t
  | Timeout_expired bool rtimer_ext_clock_t

fun dispatch :: "glossy_conf \<Rightarrow> event \<Rightarrow> node \<Rightarrow> node" where
  "dispatch cfg (Rx_started ts) s = glossy_rx_started cfg ts s"
| "dispatch cfg (Tx_started ts) s = glossy_tx_started ts s"
| "dispatch cfg (Header_received ts hdr len) s = glossy_header_received cfg ts hdr len s"
| "dispatch cfg (Rx_ended now rssi ts pkt len) s = glossy_rx_ended cfg now rssi ts pkt len s"
| "dispatch cfg (Tx_ended now ts) s = glossy_tx_ended cfg now ts s"
| "dispatch cfg (Rx_failed ts) s = glossy_rx_failed cfg ts s"
| "dispatch cfg (Rx_tx_error ts) s = glossy_rx_tx_error cfg ts s"
| "dispatch cfg (Timeout_expired busy rt_time) s = timeout_expired cfg busy rt_time s"

fun run :: "glossy_conf \<Rightarrow> event list \<Rightarrow> node \<Rightarrow> node" where
  "run cfg [] s = s"
| "run cfg (e # es) s = run cfg es (dispatch cfg e s)"

text \<open>
  \<^verbatim>\<open>glossy_stop\<close> puts the radio to sleep, clears its pending interrupts and stops the
  timer. \<open>run_while_active\<close> is the run in which, accordingly, no interrupt reaches the
  callbacks once the flood is inactive.
\<close>

fun run_while_active :: "glossy_conf \<Rightarrow> event list \<Rightarrow> node \<Rightarrow> node" where
  "run_while_active cfg [] s = s"
| "run_while_active cfg (e # es) s =
     (if active (g s) = 0 then s else run_while_active cfg es (dispatch cfg e s))"

text \<open>A configuration and a packet to evaluate the model on.\<close>

definition conf0 :: glossy_conf where
  "conf0 =
    \<lparr>GLOSSY_CONF_HEADER_BYTE = 0x80, GLOSSY_CONF_PAYLOAD_LEN = 32, GLOSSY_MAX_HEADER_LEN = 2,
     GLOSSY_UNKNOWN_N_TX_MAX = 0, GLOSSY_UNKNOWN_PAYLOAD_LEN = 0,
     GLOSSY_CONF_ALWAYS_RELAY_CNT = False, GLOSSY_CONF_COLLECT_STATS = True,
     GLOSSY_CONF_RETRANSMISSION_TIMEOUT = True, GLOSSY_CONF_ALWAYS_SAMPLE_NOISE = False,
     T_TX_BYTE = 32000, T_TX_OFFSET = 200000, T2R = 212000, TAU1 = 9000,
     NS_TO_RTIMER_EXT_HF_32 = (\<lambda>ns. ns div 308), NS_TO_RTIMER_EXT_HF_TAU1 = 29,
     node_id = 1\<rparr>"

text \<open>
  A synchronised receiver at the end of a flood: the reference was taken at relay counter 3,
  and two slot measurements, 1001 and 1002 ticks, were recorded.
\<close>

definition node_two_slots :: node where
  "node_two_slots =
    \<lparr>g = glossy_state_zero\<lparr>active := 1, t_ref := 100000, t_ref_updated := 1,
           relay_cnt_t_ref := 3, T_slot_sum := 2003, n_T_slot := 2, T_slot_estimated := 1000\<rparr>,
     calls = []\<rparr>"

text \<open>
  The acceptance condition in the words of the specification, to be compared with
  \<open>process_glossy_header\<close>. The specification lets the local sync value be unknown.
  The header has a single sync bit and glossy.c names no value of it as unknown, so the
  local sync values that count as unknown are the parameter \<open>sync_unknown\<close>.
\<close>

definition spec_header_accepted ::
  "(u8 \<Rightarrow> bool) \<Rightarrow> glossy_conf \<Rightarrow> glossy_state_t \<Rightarrow> buffer \<Rightarrow> u8 \<Rightarrow> bool" where
  "spec_header_accepted sync_unknown cfg gs pkt pkt_len \<longleftrightarrow>
     GET_COMMON_HEADER (pkt 0) = GLOSSY_COMMON_HEADER cfg \<and>
     (GET_SYNC (pkt 0) = GET_SYNC (pkt_type (header gs)) \<or>
      sync_unknown (GET_SYNC (pkt_type (header gs)))) \<and>
     (GET_N_TX_MAX (pkt 0) = GET_N_TX_MAX (pkt_type (header gs)) \<or>
      GET_N_TX_MAX (pkt_type (header gs)) = GLOSSY_UNKNOWN_N_TX_MAX cfg) \<and>
     (int (unat pkt_len) - int (GLOSSY_HEADER_LEN cfg gs) = int (unat (payload_len gs)) \<or>
      payload_len gs = GLOSSY_UNKNOWN_PAYLOAD_LEN cfg) \<and>
     unat pkt_len \<le> GLOSSY_MAX_PACKET_LEN cfg"

text \<open>
  A packet given by its bytes, the hardware reads of a start, and three nodes right after
  \<^verbatim>\<open>glossy_start\<close>: node 1 is the local node, so a flood of initiator 2 makes it a
  receiver.
\<close>

definition pkt_of :: "u8 list \<Rightarrow> buffer" where
  "pkt_of bs = (\<lambda>i. if i < length bs then bs ! i else 0)"

definition reads0 :: start_reads where
  "reads0 = \<lparr>now_hf_timeout = 1000, now_hf_duration = 1001, now_hf_stop = 1002,
             rssi_noise = Some 0xa0\<rparr>"

definition receiver_unknown :: node where
  "receiver_unknown = glossy_start conf0 reads0 2 (pkt_of []) 0 0 0 0 node_zero"


definition receiver_sync :: node where
  "receiver_sync = glossy_start conf0 reads0 2 (pkt_of []) 0 0 1 0 node_zero"

text \<open>A receiver whose flood was stopped before anything arrived.\<close>

definition stopped_receiver :: node where
  "stopped_receiver = fst (glossy_stop conf0 2000 receiver_unknown)"

text \<open>
  Two properties of events, to state facts about sequences: the event is a completed
  transmission; the packet of a completed reception carries the value \<open>N\<close> in the
  \<open>n_tx_max\<close> bits of its first byte.
\<close>

fun is_tx_ended :: "event \<Rightarrow> bool" where
  "is_tx_ended (Tx_ended now ts) = True"
| "is_tx_ended _ = False"

fun carries_n_tx_max :: "u8 \<Rightarrow> event \<Rightarrow> bool" where
  "carries_n_tx_max N (Rx_ended now rssi ts pkt len) = (GET_N_TX_MAX (pkt 0) = N)"
| "carries_n_tx_max N _ = True"




text \<open>
  A flood without sync and with \<open>n_tx_max = 0\<close>: the packet has the one-byte header
  \<open>0x80\<close> and the payload \<open>AB\<close>. In one round the receiver gets the packet and
  completes the transmission that relays it.
\<close>

definition pkt_AB :: buffer where
  "pkt_AB = pkt_of [0x80, 0x41, 0x42]"

definition pkt_CD :: buffer where
  "pkt_CD = pkt_of [0x80, 0x43, 0x44]"

definition relay_round :: "event list" where
  "relay_round = [Rx_ended 0 0 0 pkt_AB 3, Tx_ended 0 0]"

text \<open>A packet of a flood without sync and with \<open>n_tx_max = 1\<close>.\<close>

definition pkt_once :: buffer where
  "pkt_once = pkt_of [0x81, 0x41, 0x42]"

section \<open>Verified properties\<close>

subsection \<open>Word arithmetic used below\<close>

lemma unat_u32_lt: "unat (a :: 32 word) < 4294967296"
  using unsigned_less [of a, where 'a = nat] by simp

lemma unat_ucast_u32_u64: "unat (ucast (a :: 32 word) :: 64 word) = unat a"
proof -
  have "unat a < 2 ^ 64" using unat_u32_lt [of a] by simp
  then show ?thesis by (simp add: unsigned_ucast_eq take_bit_nat_eq_self)
qed

lemma unat_ucast_u64_u16: "unat (ucast (a :: 64 word) :: 16 word) = unat a mod 65536"
  by (simp add: unsigned_ucast_eq take_bit_eq_mod)

lemma ucast_u32_u64_eq_0: "(ucast (b :: 32 word) :: 64 word) = 0 \<longleftrightarrow> b = 0"
  by (metis unat_ucast_u32_u64 unat_eq_0)

subsection \<open>The hardware trace\<close>

lemma hw_g [simp]: "g (hw c s) = g s"
  by (simp add: hw_def)

lemma hw_calls [simp]: "calls (hw c s) = calls s @ [c]"
  by (simp add: hw_def)

lemma hw_g_update: "hw c (s\<lparr>g := x\<rparr>) = (hw c s)\<lparr>g := x\<rparr>"
  by (simp add: hw_def)

subsection \<open>The statistics accessors\<close>

lemma ucast_mul_10000: "unat ((ucast (a :: 32 word) :: 64 word) * 10000) = unat a * 10000"
proof -
  have "unat a * 10000 < 2 ^ 64" using unat_u32_lt [of a] by simp
  then show ?thesis
    by (simp add: unat_word_ariths unat_ucast_u32_u64)
qed

lemma rate_quotient:
  "unat (((ucast (a :: 32 word) :: 64 word) * 10000) div ucast (b :: 32 word)) =
     unat a * 10000 div unat b"
  by (simp add: unat_div ucast_mul_10000 unat_ucast_u32_u64)

lemma rate_le_10000: "(a :: nat) \<le> b \<Longrightarrow> a * 10000 div b \<le> 10000"
proof (cases "b = 0")
  case True
  then show ?thesis by simp
next
  case False
  assume "a \<le> b"
  then have "a * 10000 \<le> 10000 * b" by simp
  then have "a * 10000 div b \<le> 10000 * b div b" by (rule div_le_mono)
  then show ?thesis using False by simp
qed

lemma glossy_get_per_value:
  "map_option uint (glossy_get_per gs) =
     Some (if pkt_cnt (stats gs) = 0 then 0
           else (10000 - int (unat (pkt_cnt_crcok (stats gs)) * 10000 div
                              unat (pkt_cnt (stats gs)))) mod 65536)"
proof (cases "pkt_cnt (stats gs) = 0")
  case True
  then show ?thesis by (simp add: glossy_get_per_def)
next
  case False
  let ?q = "(ucast (pkt_cnt_crcok (stats gs)) :: 64 word) * 10000 div ucast (pkt_cnt (stats gs))"
  have "uint (10000 - (ucast ?q :: 16 word)) =
        (10000 - int (unat (ucast ?q :: 16 word))) mod 65536"
    by (simp add: uint_word_ariths)
  also have "\<dots> = (10000 - int (unat ?q mod 65536)) mod 65536"
    by (simp only: unat_ucast_u64_u16)
  also have "\<dots> = (10000 - int (unat ?q)) mod 65536"
    by (simp add: zmod_int mod_diff_right_eq)
  finally show ?thesis using False
    by (simp add: glossy_get_per_def udiv64_def ucast_u32_u64_eq_0 rate_quotient)
qed

lemma glossy_get_fsr_value:
  "map_option unat (glossy_get_fsr gs) =
     Some (if flood_cnt (stats gs) = 0 then 10000
           else (unat (flood_cnt_success (stats gs)) * 10000 div
                 unat (flood_cnt (stats gs))) mod 65536)"
  by (simp add: glossy_get_fsr_def udiv64_def ucast_u32_u64_eq_0 rate_quotient
      unat_ucast_u64_u16)

lemma glossy_get_per_bounded:
  assumes "pkt_cnt_crcok (stats gs) \<le> pkt_cnt (stats gs)"
  shows "\<exists>r. glossy_get_per gs = Some r \<and> unat r \<le> 10000 \<and>
             unat r = (if pkt_cnt (stats gs) = 0 then 0
                       else 10000 - unat (pkt_cnt_crcok (stats gs)) * 10000 div
                                    unat (pkt_cnt (stats gs)))"
proof -
  let ?q = "unat (pkt_cnt_crcok (stats gs)) * 10000 div unat (pkt_cnt (stats gs))"
  have q: "?q \<le> 10000"
    using assms by (simp add: word_le_nat_alt rate_le_10000)
  obtain r where r: "glossy_get_per gs = Some r"
    and u: "uint r = (if pkt_cnt (stats gs) = 0 then 0 else (10000 - int ?q) mod 65536)"
    using glossy_get_per_value [of gs] by (cases "glossy_get_per gs") auto
  have "(10000 - int ?q) mod 65536 = 10000 - int ?q"
    using q by simp
  then have "uint r = (if pkt_cnt (stats gs) = 0 then 0 else 10000 - int ?q)"
    using u by simp
  then have "nat (uint r) = (if pkt_cnt (stats gs) = 0 then 0 else 10000 - ?q)"
    using q by (simp add: nat_diff_distrib')
  then have "unat r = (if pkt_cnt (stats gs) = 0 then 0 else 10000 - ?q)"
    by simp
  then show ?thesis using r by auto
qed

lemma glossy_get_fsr_bounded:
  assumes "flood_cnt_success (stats gs) \<le> flood_cnt (stats gs)"
  shows "\<exists>r. glossy_get_fsr gs = Some r \<and> unat r \<le> 10000 \<and>
             unat r = (if flood_cnt (stats gs) = 0 then 10000
                       else unat (flood_cnt_success (stats gs)) * 10000 div
                            unat (flood_cnt (stats gs)))"
proof -
  let ?q = "unat (flood_cnt_success (stats gs)) * 10000 div unat (flood_cnt (stats gs))"
  have q: "?q \<le> 10000"
    using assms by (simp add: word_le_nat_alt rate_le_10000)
  obtain r where r: "glossy_get_fsr gs = Some r"
    and u: "unat r = (if flood_cnt (stats gs) = 0 then 10000 else ?q mod 65536)"
    using glossy_get_fsr_value [of gs] by (cases "glossy_get_fsr gs") auto
  have "?q mod 65536 = ?q" using q by simp
  then have "unat r = (if flood_cnt (stats gs) = 0 then 10000 else ?q)"
    using u by simp
  then show ?thesis using r q by auto
qed

text \<open>
  C10. Both accessors always return a value: the division is never reached with a zero
  divisor. \<^verbatim>\<open>glossy_get_per\<close> returns 0 when \<open>pkt_cnt\<close> is 0 and otherwise
  \<open>10000 - pkt_cnt_crcok * 10000 / pkt_cnt\<close>, computed in 16 bits;
  \<^verbatim>\<open>glossy_get_fsr\<close> returns 10000 when \<open>flood_cnt\<close> is 0 and otherwise
  \<open>flood_cnt_success * 10000 / flood_cnt\<close>, cut to 16 bits. When
  \<open>pkt_cnt_crcok \<le> pkt_cnt\<close> and \<open>flood_cnt_success \<le> flood_cnt\<close>, nothing wraps and
  both results lie between 0 and 10000.
\<close>

theorem glossy_get_per_fsr_guarded:
  "map_option uint (glossy_get_per gs) =
     Some (if pkt_cnt (stats gs) = 0 then 0
           else (10000 - int (unat (pkt_cnt_crcok (stats gs)) * 10000 div
                              unat (pkt_cnt (stats gs)))) mod 65536) \<and>
   map_option unat (glossy_get_fsr gs) =
     Some (if flood_cnt (stats gs) = 0 then 10000
           else (unat (flood_cnt_success (stats gs)) * 10000 div
                 unat (flood_cnt (stats gs))) mod 65536) \<and>
   (pkt_cnt_crcok (stats gs) \<le> pkt_cnt (stats gs) \<longrightarrow>
      (\<exists>r. glossy_get_per gs = Some r \<and> unat r \<le> 10000 \<and>
           unat r = (if pkt_cnt (stats gs) = 0 then 0
                     else 10000 - unat (pkt_cnt_crcok (stats gs)) * 10000 div
                                  unat (pkt_cnt (stats gs))))) \<and>
   (flood_cnt_success (stats gs) \<le> flood_cnt (stats gs) \<longrightarrow>
      (\<exists>r. glossy_get_fsr gs = Some r \<and> unat r \<le> 10000 \<and>
           unat r = (if flood_cnt (stats gs) = 0 then 10000
                     else unat (flood_cnt_success (stats gs)) * 10000 div
                          unat (flood_cnt (stats gs)))))"
  using glossy_get_per_value [of gs] glossy_get_fsr_value [of gs]
    glossy_get_per_bounded [of gs] glossy_get_fsr_bounded [of gs]
  by blast


text \<open>Four packets of which three had a good CRC, eight floods of which six succeeded.\<close>

theorem glossy_get_per_fsr_guarded_witness:
  "pkt_cnt_crcok (stats (glossy_state_zero\<lparr>stats := (stats glossy_state_zero)\<lparr>pkt_cnt := 4,
      pkt_cnt_crcok := 3, flood_cnt := 8, flood_cnt_success := 6\<rparr>\<rparr>))
     \<le> pkt_cnt (stats (glossy_state_zero\<lparr>stats := (stats glossy_state_zero)\<lparr>pkt_cnt := 4,
      pkt_cnt_crcok := 3, flood_cnt := 8, flood_cnt_success := 6\<rparr>\<rparr>)) \<and>
   flood_cnt_success (stats (glossy_state_zero\<lparr>stats := (stats glossy_state_zero)\<lparr>pkt_cnt := 4,
      pkt_cnt_crcok := 3, flood_cnt := 8, flood_cnt_success := 6\<rparr>\<rparr>))
     \<le> flood_cnt (stats (glossy_state_zero\<lparr>stats := (stats glossy_state_zero)\<lparr>pkt_cnt := 4,
      pkt_cnt_crcok := 3, flood_cnt := 8, flood_cnt_success := 6\<rparr>\<rparr>)) \<and>
   (\<exists>r. glossy_get_per (glossy_state_zero\<lparr>stats := (stats glossy_state_zero)\<lparr>pkt_cnt := 4,
      pkt_cnt_crcok := 3, flood_cnt := 8, flood_cnt_success := 6\<rparr>\<rparr>) = Some r \<and> unat r = 2500) \<and>
   (\<exists>r. glossy_get_fsr (glossy_state_zero\<lparr>stats := (stats glossy_state_zero)\<lparr>pkt_cnt := 4,
      pkt_cnt_crcok := 3, flood_cnt := 8, flood_cnt_success := 6\<rparr>\<rparr>) = Some r \<and> unat r = 7500)"
proof -
  let ?gs = "glossy_state_zero\<lparr>stats := (stats glossy_state_zero)\<lparr>pkt_cnt := 4,
      pkt_cnt_crcok := 3, flood_cnt := 8, flood_cnt_success := 6\<rparr>\<rparr>"
  have h1: "pkt_cnt_crcok (stats ?gs) \<le> pkt_cnt (stats ?gs)" by simp
  have h2: "flood_cnt_success (stats ?gs) \<le> flood_cnt (stats ?gs)" by simp
  from glossy_get_per_fsr_guarded [of ?gs] h1
  have "\<exists>r. glossy_get_per ?gs = Some r \<and> unat r \<le> 10000 \<and>
           unat r = (if pkt_cnt (stats ?gs) = 0 then 0
                     else 10000 - unat (pkt_cnt_crcok (stats ?gs)) * 10000 div
                                  unat (pkt_cnt (stats ?gs)))" by blast
  then have a: "\<exists>r. glossy_get_per ?gs = Some r \<and> unat r = 2500" by auto
  from glossy_get_per_fsr_guarded [of ?gs] h2
  have "\<exists>r. glossy_get_fsr ?gs = Some r \<and> unat r \<le> 10000 \<and>
           unat r = (if flood_cnt (stats ?gs) = 0 then 10000
                     else unat (flood_cnt_success (stats ?gs)) * 10000 div
                          unat (flood_cnt (stats ?gs)))" by blast
  then have b: "\<exists>r. glossy_get_fsr ?gs = Some r \<and> unat r = 7500" by auto
  show ?thesis using h1 h2 a b by blast
qed

subsection \<open>Slot measurements\<close>

lemma unat_sub_10:
  "unat ((e :: u32) - 10) = (if 10 \<le> unat e then unat e - 10 else unat e + 4294967286)"
  by (simp add: unat_sub_if' word_le_nat_alt)

lemma unat_add_10:
  "unat ((e :: u32) + 10) = (if unat e + 10 < 4294967296 then unat e + 10 else unat e - 4294967286)"
  by (simp add: unat_plus_if')

lemma window_iff:
  fixes m e :: u32
  shows "(e - 10 < m \<and> m < e + 10) \<longleftrightarrow>
         (10 \<le> unat e \<and> unat e + 10 < 4294967296 \<and> unat e < unat m + 10 \<and> unat m < unat e + 10)"
  using unat_u32_lt [of e] unat_u32_lt [of m]
  by (simp add: word_less_nat_alt unat_sub_10 unat_add_10) arith

lemma window_nat:
  fixes m e :: u32
  shows "e - 10 < m \<and> m < e + 10 \<Longrightarrow> \<bar>int (unat m) - int (unat e)\<bar> < 10"
  by (simp only: window_iff) arith

lemma window_nowrap:
  fixes m e :: u32
  assumes "10 \<le> unat e" "unat e + 10 < 2 ^ 32"
  shows "(e - 10 < m \<and> m < e + 10) \<longleftrightarrow> \<bar>int (unat m) - int (unat e)\<bar> < 10"
proof -
  have "unat e + 10 < 4294967296" using assms(2) by simp
  then show ?thesis using assms(1) unfolding window_iff by arith
qed

lemma unat_T_SLOT_TOLERANCE: "int (unat T_SLOT_TOLERANCE) = 10"
  by (simp add: T_SLOT_TOLERANCE_def)

lemma add_T_slot_measurement_cases:
  "add_T_slot_measurement m gs =
     (if T_slot_estimated gs - 10 < m \<and> m < T_slot_estimated gs + 10
      then gs\<lparr>T_slot_sum := T_slot_sum gs + ucast m, n_T_slot := n_T_slot gs + 1\<rparr>
      else gs)"
  by (simp add: add_T_slot_measurement_def T_SLOT_TOLERANCE_def)

lemma recorded_neq:
  "gs\<lparr>T_slot_sum := a, n_T_slot := n_T_slot gs + 1\<rparr> \<noteq> gs"
proof
  assume "gs\<lparr>T_slot_sum := a, n_T_slot := n_T_slot gs + 1\<rparr> = gs"
  then have "n_T_slot (gs\<lparr>T_slot_sum := a, n_T_slot := n_T_slot gs + 1\<rparr>) = n_T_slot gs"
    by simp
  then show False by simp
qed

lemma add_T_slot_measurement_changed_iff:
  "add_T_slot_measurement m gs \<noteq> gs \<longleftrightarrow>
     (T_slot_estimated gs - 10 < m \<and> m < T_slot_estimated gs + 10)"
  using recorded_neq [of gs "T_slot_sum gs + ucast m"]
  by (simp only: add_T_slot_measurement_cases split: if_split) blast

text \<open>
  C7, as amended. \<^verbatim>\<open>add_T_slot_measurement\<close> compares with strict inequalities, so
  it records a measurement \<open>m\<close> exactly when \<open>|m - T_slot_estimated| < T_SLOT_TOLERANCE\<close>,
  for every estimate from 10 up to \<open>2^32 - 11\<close> (the range in which neither bound of the
  comparison wraps). For every estimate, a measurement that is recorded is added to
  \<open>T_slot_sum\<close>, counted in \<open>n_T_slot\<close>, and satisfies
  \<open>|m - T_slot_estimated| < T_SLOT_TOLERANCE\<close>; a measurement outside that window leaves
  the state unchanged.
\<close>

theorem add_T_slot_measurement_window:
  "(10 \<le> unat (T_slot_estimated gs) \<and> unat (T_slot_estimated gs) + 10 < 2 ^ 32 \<longrightarrow>
      add_T_slot_measurement m gs =
        (if \<bar>int (unat m) - int (unat (T_slot_estimated gs))\<bar> < int (unat T_SLOT_TOLERANCE)
         then gs\<lparr>T_slot_sum := T_slot_sum gs + ucast m, n_T_slot := n_T_slot gs + 1\<rparr>
         else gs)) \<and>
   (add_T_slot_measurement m gs \<noteq> gs \<longrightarrow>
      add_T_slot_measurement m gs =
        gs\<lparr>T_slot_sum := T_slot_sum gs + ucast m, n_T_slot := n_T_slot gs + 1\<rparr> \<and>
      \<bar>int (unat m) - int (unat (T_slot_estimated gs))\<bar> < int (unat T_SLOT_TOLERANCE)) \<and>
   (\<not> \<bar>int (unat m) - int (unat (T_slot_estimated gs))\<bar> < int (unat T_SLOT_TOLERANCE) \<longrightarrow>
      add_T_slot_measurement m gs = gs)"
proof (intro conjI impI)
  assume "10 \<le> unat (T_slot_estimated gs) \<and> unat (T_slot_estimated gs) + 10 < 2 ^ 32"
  then have "(T_slot_estimated gs - 10 < m \<and> m < T_slot_estimated gs + 10) \<longleftrightarrow>
             \<bar>int (unat m) - int (unat (T_slot_estimated gs))\<bar> < 10"
    using window_nowrap [of "T_slot_estimated gs" m] by blast
  then show "add_T_slot_measurement m gs =
        (if \<bar>int (unat m) - int (unat (T_slot_estimated gs))\<bar> < int (unat T_SLOT_TOLERANCE)
         then gs\<lparr>T_slot_sum := T_slot_sum gs + ucast m, n_T_slot := n_T_slot gs + 1\<rparr>
         else gs)"
    by (simp only: add_T_slot_measurement_cases unat_T_SLOT_TOLERANCE)
next
  assume "add_T_slot_measurement m gs \<noteq> gs"
  then show "add_T_slot_measurement m gs =
        gs\<lparr>T_slot_sum := T_slot_sum gs + ucast m, n_T_slot := n_T_slot gs + 1\<rparr>"
    using add_T_slot_measurement_changed_iff [of m gs]
    by (simp add: add_T_slot_measurement_cases)
next
  assume "add_T_slot_measurement m gs \<noteq> gs"
  then have "T_slot_estimated gs - 10 < m \<and> m < T_slot_estimated gs + 10"
    by (simp only: add_T_slot_measurement_changed_iff)
  then show "\<bar>int (unat m) - int (unat (T_slot_estimated gs))\<bar> < int (unat T_SLOT_TOLERANCE)"
    unfolding unat_T_SLOT_TOLERANCE by (rule window_nat)
next
  assume a: "\<not> \<bar>int (unat m) - int (unat (T_slot_estimated gs))\<bar> < int (unat T_SLOT_TOLERANCE)"
  have "\<not> (T_slot_estimated gs - 10 < m \<and> m < T_slot_estimated gs + 10)"
    using a window_nat [of "T_slot_estimated gs" m] unfolding unat_T_SLOT_TOLERANCE by blast
  then show "add_T_slot_measurement m gs = gs"
    using add_T_slot_measurement_changed_iff [of m gs] by blast
qed

lemma zero_T_slot_fields:
  "n_T_slot glossy_state_zero = 0" "T_slot_sum glossy_state_zero = 0"
  by (simp_all add: glossy_state_zero_def)

text \<open>The estimate 100 with the measurements 103 (recorded) and 130 (dropped).\<close>

theorem add_T_slot_measurement_window_witness:
  "10 \<le> unat (T_slot_estimated (glossy_state_zero\<lparr>T_slot_estimated := 100\<rparr>)) \<and>
   unat (T_slot_estimated (glossy_state_zero\<lparr>T_slot_estimated := 100\<rparr>)) + 10 < 2 ^ 32 \<and>
   add_T_slot_measurement 103 (glossy_state_zero\<lparr>T_slot_estimated := 100\<rparr>) =
     glossy_state_zero\<lparr>T_slot_estimated := 100, T_slot_sum := 103, n_T_slot := 1\<rparr> \<and>
   add_T_slot_measurement 130 (glossy_state_zero\<lparr>T_slot_estimated := 100\<rparr>) =
     glossy_state_zero\<lparr>T_slot_estimated := 100\<rparr>"
proof -
  let ?gs = "glossy_state_zero\<lparr>T_slot_estimated := 100\<rparr>"
  have h: "10 \<le> unat (T_slot_estimated ?gs) \<and> unat (T_slot_estimated ?gs) + 10 < 2 ^ 32"
    by simp
  have "add_T_slot_measurement 103 ?gs =
        (if \<bar>int (unat (103 :: u32)) - int (unat (T_slot_estimated ?gs))\<bar> < int (unat T_SLOT_TOLERANCE)
         then ?gs\<lparr>T_slot_sum := T_slot_sum ?gs + ucast (103 :: u32), n_T_slot := n_T_slot ?gs + 1\<rparr>
         else ?gs)"
    using add_T_slot_measurement_window [of ?gs 103] h by blast
  then have a: "add_T_slot_measurement 103 ?gs =
                glossy_state_zero\<lparr>T_slot_estimated := 100, T_slot_sum := 103, n_T_slot := 1\<rparr>"
    by (simp add: T_SLOT_TOLERANCE_def zero_T_slot_fields)
  have "add_T_slot_measurement 130 ?gs =
        (if \<bar>int (unat (130 :: u32)) - int (unat (T_slot_estimated ?gs))\<bar> < int (unat T_SLOT_TOLERANCE)
         then ?gs\<lparr>T_slot_sum := T_slot_sum ?gs + ucast (130 :: u32), n_T_slot := n_T_slot ?gs + 1\<rparr>
         else ?gs)"
    using add_T_slot_measurement_window [of ?gs 130] h by blast
  then have b: "add_T_slot_measurement 130 ?gs = ?gs"
    by (simp add: T_SLOT_TOLERANCE_def)
  show ?thesis using h a b by blast
qed

text \<open>
  C7 as stated fails on the boundary: with the estimate 100, the measurement 110 lies
  within \<open>T_slot_estimated \<plusminus> T_SLOT_TOLERANCE\<close> and is not recorded.
\<close>

theorem add_T_slot_measurement_boundary_counterexample:
  "\<bar>int (unat (110 :: u32)) -
     int (unat (T_slot_estimated (glossy_state_zero\<lparr>T_slot_estimated := 100\<rparr>)))\<bar>
     \<le> int (unat T_SLOT_TOLERANCE) \<and>
   add_T_slot_measurement 110 (glossy_state_zero\<lparr>T_slot_estimated := 100\<rparr>) =
     glossy_state_zero\<lparr>T_slot_estimated := 100\<rparr>"
  by (simp add: add_T_slot_measurement_def T_SLOT_TOLERANCE_def)

text \<open>
  With an estimate below 10 the lower bound wraps around and nothing is recorded, not even
  a measurement equal to the estimate. \<^verbatim>\<open>glossy_start\<close> sets the estimate to 0.
\<close>

lemma add_T_slot_measurement_small_estimate:
  "add_T_slot_measurement 3 (glossy_state_zero\<lparr>T_slot_estimated := 3\<rparr>) =
     glossy_state_zero\<lparr>T_slot_estimated := 3\<rparr>"
  by (simp add: add_T_slot_measurement_def T_SLOT_TOLERANCE_def)

subsection \<open>Stopping a flood\<close>

lemma glossy_stop_inactive: "active (g s) = 0 \<Longrightarrow> glossy_stop cfg now s = (s, n_rx (g s))"
  by (simp add: glossy_stop_def)

lemma glossy_stop_active_after: "active (g (fst (glossy_stop cfg now s))) = 0"
  by (simp add: glossy_stop_def Let_def)

lemma glossy_stop_n_rx: "n_rx (g (fst (glossy_stop cfg now s))) = n_rx (g s)"
  by (simp add: glossy_stop_def Let_def)

lemma glossy_stop_n_tx: "n_tx (g (fst (glossy_stop cfg now s))) = n_tx (g s)"
  by (simp add: glossy_stop_def Let_def)

lemma glossy_stop_header: "header (g (fst (glossy_stop cfg now s))) = header (g s)"
  by (simp add: glossy_stop_def Let_def)

lemma glossy_stop_payload: "payload (g (fst (glossy_stop cfg now s))) = payload (g s)"
  by (simp add: glossy_stop_def Let_def)

lemma glossy_stop_payload_len: "payload_len (g (fst (glossy_stop cfg now s))) = payload_len (g s)"
  by (simp add: glossy_stop_def Let_def)

lemma glossy_stop_initiator_id: "initiator_id (g (fst (glossy_stop cfg now s))) = initiator_id (g s)"
  by (simp add: glossy_stop_def Let_def)

lemma glossy_stop_result: "snd (glossy_stop cfg now s) = n_rx (g s)"
  by (simp add: glossy_stop_def Let_def)

text \<open>
  C8. \<^verbatim>\<open>glossy_stop\<close> on an inactive flood changes nothing, issues no call to the
  radio or the timer, and returns \<open>n_rx\<close>. Hence a second \<^verbatim>\<open>glossy_stop\<close> right
  after a first one returns the same value and leaves the state as the first call left it.
\<close>

theorem glossy_stop_inactive_noop:
  "(active (g s) = 0 \<longrightarrow> glossy_stop cfg now s = (s, n_rx (g s))) \<and>
   glossy_stop cfg now2 (fst (glossy_stop cfg now1 s)) =
     (fst (glossy_stop cfg now1 s), snd (glossy_stop cfg now1 s))"
  using glossy_stop_inactive [of s cfg now]
    glossy_stop_inactive [of "fst (glossy_stop cfg now1 s)" cfg now2]
  by (simp add: glossy_stop_active_after glossy_stop_n_rx glossy_stop_result)

text \<open>The node before any flood is inactive.\<close>

theorem glossy_stop_inactive_noop_witness:
  "active (g node_zero) = 0 \<and> glossy_stop conf0 7 node_zero = (node_zero, 0)"
proof -
  have h: "active (g node_zero) = 0" by (simp add: node_zero_def glossy_state_zero_def)
  have n: "n_rx (g node_zero) = 0" by (simp add: node_zero_def glossy_state_zero_def)
  from glossy_stop_inactive_noop [of node_zero conf0 7] h
  have "glossy_stop conf0 7 node_zero = (node_zero, n_rx (g node_zero))" by blast
  then show ?thesis using h n by simp
qed

subsection \<open>The reference time at the end of a flood\<close>

lemma unat_ucast_u8_u64: "unat (ucast (a :: 8 word) :: 64 word) = unat a"
proof -
  have "unat a < 2 ^ 8" using unsigned_less [of a, where 'a = nat] by simp
  then have "unat a < 2 ^ 64" by simp
  then show ?thesis by (simp add: unsigned_ucast_eq take_bit_nat_eq_self)
qed

lemma unat_ucast_u8_u32: "unat (ucast (a :: 8 word) :: 32 word) = unat a"
proof -
  have "unat a < 2 ^ 8" using unsigned_less [of a, where 'a = nat] by simp
  then have "unat a < 2 ^ 32" by simp
  then show ?thesis by (simp add: unsigned_ucast_eq take_bit_nat_eq_self)
qed

lemma slot_average_decrement:
  "(ucast (r :: u8) * (S :: 64 word)) div ucast (n :: u8) =
     of_nat ((unat r * unat S mod 2 ^ 64) div unat n)"
  by (simp add: word_arith_nat_div unat_word_ariths unat_ucast_u8_u64)

lemma slot_estimate_decrement:
  "(ucast ((ucast (r :: u8) :: u32) * (e :: u32)) :: 64 word) =
     of_nat (unat r * unat e mod 2 ^ 32)"
proof -
  have "(ucast ((ucast r :: u32) * e) :: 64 word) = of_nat (unat ((ucast r :: u32) * e))"
    by simp
  then show ?thesis by (simp add: unat_word_ariths unat_ucast_u8_u32)
qed

lemma glossy_stop_t_ref_word:
  "active (g s) \<noteq> 0 \<Longrightarrow>
   t_ref (g (fst (glossy_stop cfg now s))) =
     (if t_ref_updated (g s) = 0 then t_ref (g s)
      else if 0 < n_T_slot (g s)
        then t_ref (g s) - (ucast (relay_cnt_t_ref (g s)) * T_slot_sum (g s)) div ucast (n_T_slot (g s))
        else t_ref (g s) - ucast ((ucast (relay_cnt_t_ref (g s)) :: u32) * T_slot_estimated (g s)))"
  by (simp add: glossy_stop_def Let_def)

text \<open>
  C2, as amended. When \<^verbatim>\<open>glossy_stop\<close> ends an active flood and \<open>t_ref_updated\<close>
  is set, \<open>t_ref\<close> is decremented by \<open>(relay_cnt_t_ref * T_slot_sum) / n_T_slot\<close> if
  \<open>n_T_slot > 0\<close> (the product is formed first, in 64 bits, and then divided), and by
  the 32-bit product \<open>relay_cnt_t_ref * T_slot_estimated\<close> if \<open>n_T_slot = 0\<close>; when
  \<open>t_ref_updated\<close> is not set, \<open>t_ref\<close> is unchanged.
\<close>

theorem glossy_stop_t_ref:
  assumes "active (g s) \<noteq> 0"
  shows "t_ref (g (fst (glossy_stop cfg now s))) =
     (if t_ref_updated (g s) = 0 then t_ref (g s)
      else if 0 < n_T_slot (g s)
        then t_ref (g s) -
               of_nat ((unat (relay_cnt_t_ref (g s)) * unat (T_slot_sum (g s)) mod 2 ^ 64) div
                       unat (n_T_slot (g s)))
        else t_ref (g s) -
               of_nat (unat (relay_cnt_t_ref (g s)) * unat (T_slot_estimated (g s)) mod 2 ^ 32))"
  using glossy_stop_t_ref_word [OF assms, of cfg now]
  by (simp only: slot_average_decrement slot_estimate_decrement)

lemma node_two_slots_fields:
  "active (g node_two_slots) = 1" "t_ref (g node_two_slots) = 100000"
  "t_ref_updated (g node_two_slots) = 1" "relay_cnt_t_ref (g node_two_slots) = 3"
  "T_slot_sum (g node_two_slots) = 2003" "n_T_slot (g node_two_slots) = 2"
  "T_slot_estimated (g node_two_slots) = 1000"
  by (simp_all add: node_two_slots_def)

text \<open>Decrement \<open>(3 * 2003) div 2 = 3004\<close>.\<close>

theorem glossy_stop_t_ref_witness:
  "active (g node_two_slots) \<noteq> 0 \<and>
   t_ref (g (fst (glossy_stop conf0 0 node_two_slots))) = 96996"
proof -
  have h: "active (g node_two_slots) \<noteq> 0" by (simp add: node_two_slots_fields)
  show ?thesis
    using h glossy_stop_t_ref [OF h, of conf0 0]
    by (simp add: node_two_slots_fields)
qed

text \<open>
  C2 as stated divides before it multiplies: \<open>3 * (2003 div 2) = 3003\<close>, one tick less
  than what \<^verbatim>\<open>glossy_stop\<close> subtracts.
\<close>

theorem glossy_stop_t_ref_counterexample:
  "t_ref (g (fst (glossy_stop conf0 0 node_two_slots))) = 96996 \<and>
   t_ref (g node_two_slots) -
     ucast (relay_cnt_t_ref (g node_two_slots)) *
       (T_slot_sum (g node_two_slots) div ucast (n_T_slot (g node_two_slots))) = 96997"
proof -
  have h: "active (g node_two_slots) \<noteq> 0" by (simp add: node_two_slots_fields)
  show ?thesis
    using glossy_stop_t_ref_word [OF h, of conf0 0]
    by (simp add: node_two_slots_fields)
qed

subsection \<open>Header validation\<close>

lemma process_glossy_header_unfold:
  "process_glossy_header cfg pkt pkt_len crc_ok s =
    (if header_ok (g s) = 0 \<and>
        \<not> (GET_COMMON_HEADER (pkt 0) = GLOSSY_COMMON_HEADER cfg \<and>
           GET_SYNC (pkt 0) = GET_SYNC (pkt_type (header (g s))) \<and>
           (GET_N_TX_MAX (pkt 0) = GET_N_TX_MAX (pkt_type (header (g s))) \<or>
            GET_N_TX_MAX (pkt_type (header (g s))) = GLOSSY_UNKNOWN_N_TX_MAX cfg) \<and>
           (int (unat pkt_len) - int (GLOSSY_HEADER_LEN cfg (g s)) = int (unat (payload_len (g s))) \<or>
            payload_len (g s) = GLOSSY_UNKNOWN_PAYLOAD_LEN cfg) \<and>
           unat pkt_len \<le> GLOSSY_MAX_PACKET_LEN cfg)
     then (s, 0)
     else
       (let s1 = (if header_ok (g s) = 0 then s\<lparr>g := (g s)\<lparr>header_ok := 1\<rparr>\<rparr> else s)
        in if crc_ok = 0 then (s1, 1)
           else if unat pkt_len > GLOSSY_MAX_PACKET_LEN cfg then (s1, 0)
           else
             (let g1 = (g s1)\<lparr>header := \<lparr>pkt_type = pkt 0, relay_cnt = pkt 1\<rparr>\<rparr>;
                  g2 = g1\<lparr>payload_len := pkt_len - of_nat (GLOSSY_HEADER_LEN cfg g1)\<rparr>
              in (hw (Rf1a_set_header_len_rx (GLOSSY_HEADER_LEN cfg g2)) (s1\<lparr>g := g2\<rparr>), 1))))"
proof (cases "header_ok (g s) = 0")
  case True
  then show ?thesis
    apply (simp only: process_glossy_header_def Let_def GLOSSY_MAX_PACKET_LEN_def glossy_header_t.simps if_True)
    apply (simp split: if_split)
    apply (intro conjI impI)
    apply simp_all
    done
next
  case False
  then show ?thesis
    by (simp add: process_glossy_header_def Let_def GLOSSY_MAX_PACKET_LEN_def)
qed

lemma GLOSSY_HEADER_LEN_alt:
  "GLOSSY_HEADER_LEN cfg gs =
     (if GET_SYNC (pkt_type (header gs)) \<noteq> 0 \<or> GLOSSY_CONF_ALWAYS_RELAY_CNT cfg then 2 else 1)"
  by (simp add: GLOSSY_HEADER_LEN_def WITH_SYNC_def WITH_RELAY_CNT_def)

lemma process_glossy_header_result:
  "snd (process_glossy_header cfg pkt pkt_len crc_ok s) =
    (if (header_ok (g s) = 0 \<longrightarrow>
           GET_COMMON_HEADER (pkt 0) = GLOSSY_COMMON_HEADER cfg \<and>
           GET_SYNC (pkt 0) = GET_SYNC (pkt_type (header (g s))) \<and>
           (GET_N_TX_MAX (pkt 0) = GET_N_TX_MAX (pkt_type (header (g s))) \<or>
            GET_N_TX_MAX (pkt_type (header (g s))) = GLOSSY_UNKNOWN_N_TX_MAX cfg) \<and>
           (int (unat pkt_len) - int (GLOSSY_HEADER_LEN cfg (g s)) = int (unat (payload_len (g s))) \<or>
            payload_len (g s) = GLOSSY_UNKNOWN_PAYLOAD_LEN cfg) \<and>
           unat pkt_len \<le> GLOSSY_MAX_PACKET_LEN cfg) \<and>
        (crc_ok \<noteq> 0 \<longrightarrow> unat pkt_len \<le> GLOSSY_MAX_PACKET_LEN cfg)
     then 1 else 0)"
  by (simp add: process_glossy_header_unfold Let_def)

text \<open>
  C4, as amended. A header that arrives while \<open>header_ok\<close> is not yet latched is
  accepted by \<^verbatim>\<open>process_glossy_header\<close> (which then returns 1, and 0 otherwise)
  iff the common-header tag equals the configured tag; the received sync bit equals the
  local sync bit (the code has no unknown value for it); the received \<open>n_tx_max\<close> equals
  the local one or the local one is unknown; the packet length minus the header length
  equals the local \<open>payload_len\<close> or that is unknown; and the packet length does not
  exceed the maximal packet length.
\<close>

theorem process_glossy_header_accepts:
  assumes "header_ok (g s) = 0"
  shows "snd (process_glossy_header cfg pkt pkt_len crc_ok s) =
    (if GET_COMMON_HEADER (pkt 0) = GLOSSY_COMMON_HEADER cfg \<and>
        GET_SYNC (pkt 0) = GET_SYNC (pkt_type (header (g s))) \<and>
        (GET_N_TX_MAX (pkt 0) = GET_N_TX_MAX (pkt_type (header (g s))) \<or>
         GET_N_TX_MAX (pkt_type (header (g s))) = GLOSSY_UNKNOWN_N_TX_MAX cfg) \<and>
        (int (unat pkt_len) - int (GLOSSY_HEADER_LEN cfg (g s)) = int (unat (payload_len (g s))) \<or>
         payload_len (g s) = GLOSSY_UNKNOWN_PAYLOAD_LEN cfg) \<and>
        unat pkt_len \<le> GLOSSY_MAX_PACKET_LEN cfg
     then 1 else 0)"
  using assms by (simp add: process_glossy_header_result)

lemma process_glossy_header_state_crc:
  assumes acc: "snd (process_glossy_header cfg pkt pkt_len 1 s) \<noteq> 0"
  shows "fst (process_glossy_header cfg pkt pkt_len 1 s) =
     hw (Rf1a_set_header_len_rx (if GET_SYNC (pkt 0) \<noteq> 0 \<or> GLOSSY_CONF_ALWAYS_RELAY_CNT cfg then 2 else 1))
        (s\<lparr>g := (g s)\<lparr>header_ok := (if header_ok (g s) = 0 then 1 else header_ok (g s)),
                        header := \<lparr>pkt_type = pkt 0, relay_cnt = pkt 1\<rparr>,
                        payload_len := pkt_len -
                          (if GET_SYNC (pkt 0) \<noteq> 0 \<or> GLOSSY_CONF_ALWAYS_RELAY_CNT cfg then 2 else 1)\<rparr>\<rparr>)"
proof -
  let ?A = "GET_COMMON_HEADER (pkt 0) = GLOSSY_COMMON_HEADER cfg \<and>
           GET_SYNC (pkt 0) = GET_SYNC (pkt_type (header (g s))) \<and>
           (GET_N_TX_MAX (pkt 0) = GET_N_TX_MAX (pkt_type (header (g s))) \<or>
            GET_N_TX_MAX (pkt_type (header (g s))) = GLOSSY_UNKNOWN_N_TX_MAX cfg) \<and>
           (int (unat pkt_len) - int (GLOSSY_HEADER_LEN cfg (g s)) = int (unat (payload_len (g s))) \<or>
            payload_len (g s) = GLOSSY_UNKNOWN_PAYLOAD_LEN cfg) \<and>
           unat pkt_len \<le> GLOSSY_MAX_PACKET_LEN cfg"
  have c: "(header_ok (g s) = 0 \<longrightarrow> ?A) \<and> unat pkt_len \<le> GLOSSY_MAX_PACKET_LEN cfg"
    using acc unfolding process_glossy_header_result by (meson one_neq_zero zero_neq_one)
  then have n: "\<not> (header_ok (g s) = 0 \<and> \<not> ?A)" and l: "\<not> GLOSSY_MAX_PACKET_LEN cfg < unat pkt_len"
    by auto
  show ?thesis
  proof (cases "header_ok (g s) = 0")
    case True
    show ?thesis
      unfolding process_glossy_header_unfold if_not_P [OF n]
      using l True by (simp add: Let_def GLOSSY_HEADER_LEN_alt)
  next
    case False
    show ?thesis
      unfolding process_glossy_header_unfold if_not_P [OF n]
      using l False by (simp add: Let_def GLOSSY_HEADER_LEN_alt)
  qed
qed

lemma process_glossy_header_state_other:
  assumes "crc_ok = 0 \<or> snd (process_glossy_header cfg pkt pkt_len crc_ok s) = 0"
  shows "\<exists>v. fst (process_glossy_header cfg pkt pkt_len crc_ok s) = s\<lparr>g := (g s)\<lparr>header_ok := v\<rparr>\<rparr>"
proof -
  let ?A = "GET_COMMON_HEADER (pkt 0) = GLOSSY_COMMON_HEADER cfg \<and>
           GET_SYNC (pkt 0) = GET_SYNC (pkt_type (header (g s))) \<and>
           (GET_N_TX_MAX (pkt 0) = GET_N_TX_MAX (pkt_type (header (g s))) \<or>
            GET_N_TX_MAX (pkt_type (header (g s))) = GLOSSY_UNKNOWN_N_TX_MAX cfg) \<and>
           (int (unat pkt_len) - int (GLOSSY_HEADER_LEN cfg (g s)) = int (unat (payload_len (g s))) \<or>
            payload_len (g s) = GLOSSY_UNKNOWN_PAYLOAD_LEN cfg) \<and>
           unat pkt_len \<le> GLOSSY_MAX_PACKET_LEN cfg"
  have same: "s = s\<lparr>g := (g s)\<lparr>header_ok := header_ok (g s)\<rparr>\<rparr>" by simp
  show ?thesis
  proof (cases "header_ok (g s) = 0 \<and> \<not> ?A")
    case True
    have "fst (process_glossy_header cfg pkt pkt_len crc_ok s) = s"
      unfolding process_glossy_header_unfold if_P [OF True] by simp
    then show ?thesis using same by metis
  next
    case False
    have r: "crc_ok = 0 \<or> GLOSSY_MAX_PACKET_LEN cfg < unat pkt_len"
      using assms False unfolding process_glossy_header_result by (cases "crc_ok = 0") (auto split: if_splits)
    show ?thesis
    proof (cases "header_ok (g s) = 0")
      case True
      have "fst (process_glossy_header cfg pkt pkt_len crc_ok s) = s\<lparr>g := (g s)\<lparr>header_ok := 1\<rparr>\<rparr>"
        unfolding process_glossy_header_unfold if_not_P [OF False]
        using r True by (auto simp add: Let_def)
      then show ?thesis by blast
    next
      case F2: False
      have "fst (process_glossy_header cfg pkt pkt_len crc_ok s) = s"
        unfolding process_glossy_header_unfold if_not_P [OF False]
        using r F2 by (auto simp add: Let_def)
      then show ?thesis using same by metis
    qed
  qed
qed

lemma receiver_unknown_fields:
  "header_ok (g receiver_unknown) = 0" "pkt_type (header (g receiver_unknown)) = 0x80"
  "payload_len (g receiver_unknown) = 0" "active (g receiver_unknown) = 1"
  "n_tx (g receiver_unknown) = 0" "n_rx (g receiver_unknown) = 0"
  "initiator_id (g receiver_unknown) = 2"
  by (simp_all add: receiver_unknown_def glossy_start_def Let_def conf0_def node_zero_def
      glossy_state_zero_def IS_INITIATOR_def SET_PKT_TYPE_def GLOSSY_COMMON_HEADER_def
      GLOSSY_HEADER_BYTE_MASK_def GLOSSY_HEADER_SYNC_MASK_def GLOSSY_HEADER_N_TX_MASK_def reads0_def)

lemma masks_eval:
  "GET_SYNC 0x80 = 0" "GET_SYNC 0x83 = 0" "GET_SYNC 0x93 = 0x10" "GET_SYNC 0x81 = 0"
  "GET_N_TX_MAX 0x80 = 0" "GET_N_TX_MAX 0x83 = 3" "GET_N_TX_MAX 0x93 = 3" "GET_N_TX_MAX 0x81 = 1"
  "GET_COMMON_HEADER 0x80 = 0x80" "GET_COMMON_HEADER 0x83 = 0x80" "GET_COMMON_HEADER 0x93 = 0x80"
  "GET_COMMON_HEADER 0x81 = 0x80"
  "GLOSSY_COMMON_HEADER conf0 = 0x80"
  by (simp_all add: GET_SYNC_def GET_N_TX_MAX_def GET_COMMON_HEADER_def GLOSSY_COMMON_HEADER_def
      GLOSSY_HEADER_BYTE_MASK_def GLOSSY_HEADER_SYNC_MASK_def GLOSSY_HEADER_N_TX_MASK_def conf0_def)

lemma conf0_fields:
  "GLOSSY_UNKNOWN_N_TX_MAX conf0 = 0" "GLOSSY_UNKNOWN_PAYLOAD_LEN conf0 = 0"
  "GLOSSY_MAX_PACKET_LEN conf0 = 34" "GLOSSY_CONF_ALWAYS_RELAY_CNT conf0 = False"
  "GLOSSY_CONF_COLLECT_STATS conf0 = True" "node_id conf0 = 1"
  "GLOSSY_CONF_RETRANSMISSION_TIMEOUT conf0 = True"
  by (simp_all add: conf0_def GLOSSY_MAX_PACKET_LEN_def)

text \<open>
  A receiver that knows neither \<open>n_tx_max\<close> nor the payload length accepts a packet
  with the right tag and no sync bit, and rejects one with the wrong tag.
\<close>

theorem process_glossy_header_accepts_witness:
  "header_ok (g receiver_unknown) = 0 \<and>
   snd (process_glossy_header conf0 (pkt_of [0x83, 72, 105]) 3 1 receiver_unknown) = 1 \<and>
   snd (process_glossy_header conf0 (pkt_of [0x63, 72, 105]) 3 1 receiver_unknown) = 0"
proof -
  have h: "header_ok (g receiver_unknown) = 0" by (simp add: receiver_unknown_fields)
  show ?thesis
    using h process_glossy_header_accepts [OF h, of conf0 "pkt_of [0x83, 72, 105]" 3 1]
      process_glossy_header_accepts [OF h, of conf0 "pkt_of [0x63, 72, 105]" 3 1]
    by (simp add: receiver_unknown_fields masks_eval conf0_fields pkt_of_def GET_COMMON_HEADER_def
        GLOSSY_HEADER_BYTE_MASK_def)
qed

text \<open>
  C4 as stated fails whichever sync value is read as unknown. Here the local sync bit is 0
  (as for the other two fields, 0 is read as unknown) and the received sync bit is 1: the
  specification's condition holds and \<^verbatim>\<open>process_glossy_header\<close> returns 0.
\<close>

theorem process_glossy_header_sync_counterexample:
  "header_ok (g receiver_unknown) = 0 \<and>
   spec_header_accepted (\<lambda>v. v = 0) conf0 (g receiver_unknown) (pkt_of [0x93, 4, 72, 105]) 4 \<and>
   snd (process_glossy_header conf0 (pkt_of [0x93, 4, 72, 105]) 4 1 receiver_unknown) = 0"
  by (simp add: process_glossy_header_result spec_header_accepted_def receiver_unknown_fields
      masks_eval conf0_fields pkt_of_def)

text \<open>The other way round: local sync bit 1, received sync bit 0.\<close>

lemma process_glossy_header_sync_set_rejects_plain:
  "header_ok (g receiver_sync) = 0 \<and>
   GET_SYNC (pkt_type (header (g receiver_sync))) = 0x10 \<and>
   snd (process_glossy_header conf0 (pkt_of [0x83, 72, 105]) 3 1 receiver_sync) = 0"
  by (simp add: process_glossy_header_result masks_eval conf0_fields pkt_of_def
      receiver_sync_def glossy_start_def Let_def conf0_def node_zero_def
      glossy_state_zero_def IS_INITIATOR_def SET_PKT_TYPE_def GLOSSY_COMMON_HEADER_def
      GLOSSY_HEADER_BYTE_MASK_def GLOSSY_HEADER_SYNC_MASK_def GLOSSY_HEADER_N_TX_MASK_def reads0_def
      GET_SYNC_def hw_def)

subsection \<open>What the blocks of the callbacks leave unchanged\<close>

lemma add_T_slot_measurement_frame:
  "header (add_T_slot_measurement m gs) = header gs"
  "n_tx (add_T_slot_measurement m gs) = n_tx gs"
  "n_rx (add_T_slot_measurement m gs) = n_rx gs"
  "active (add_T_slot_measurement m gs) = active gs"
  "initiator_id (add_T_slot_measurement m gs) = initiator_id gs"
  "payload (add_T_slot_measurement m gs) = payload gs"
  "payload_len (add_T_slot_measurement m gs) = payload_len gs"
  "stats (add_T_slot_measurement m gs) = stats gs"
  by (simp_all add: add_T_slot_measurement_def)

lemma rx_ended_sync_frame:
  "header (rx_ended_sync cfg gs) = header gs"
  "n_tx (rx_ended_sync cfg gs) = n_tx gs"
  "n_rx (rx_ended_sync cfg gs) = n_rx gs"
  "active (rx_ended_sync cfg gs) = active gs"
  "initiator_id (rx_ended_sync cfg gs) = initiator_id gs"
  "payload (rx_ended_sync cfg gs) = payload gs"
  "payload_len (rx_ended_sync cfg gs) = payload_len gs"
  "stats (rx_ended_sync cfg gs) = stats gs"
  by (simp_all add: rx_ended_sync_def Let_def update_t_ref_def add_T_slot_measurement_frame)

lemma tx_ended_sync_frame:
  "header (tx_ended_sync cfg gs) = header gs"
  "n_tx (tx_ended_sync cfg gs) = n_tx gs"
  "n_rx (tx_ended_sync cfg gs) = n_rx gs"
  "active (tx_ended_sync cfg gs) = active gs"
  "initiator_id (tx_ended_sync cfg gs) = initiator_id gs"
  "payload (tx_ended_sync cfg gs) = payload gs"
  "payload_len (tx_ended_sync cfg gs) = payload_len gs"
  "stats (tx_ended_sync cfg gs) = stats gs"
  by (simp_all add: tx_ended_sync_def Let_def update_t_ref_def add_T_slot_measurement_frame)

lemma rx_ended_stats_frame:
  "header (rx_ended_stats cfg rc rssi gs) = header gs"
  "n_tx (rx_ended_stats cfg rc rssi gs) = n_tx gs"
  "n_rx (rx_ended_stats cfg rc rssi gs) = n_rx gs"
  "active (rx_ended_stats cfg rc rssi gs) = active gs"
  "initiator_id (rx_ended_stats cfg rc rssi gs) = initiator_id gs"
  "payload (rx_ended_stats cfg rc rssi gs) = payload gs"
  "payload_len (rx_ended_stats cfg rc rssi gs) = payload_len gs"
  by (simp_all add: rx_ended_stats_def Let_def)

lemma rx_ended_count_frame:
  "header (rx_ended_count cfg p gs) = header gs"
  "n_tx (rx_ended_count cfg p gs) = n_tx gs"
  "n_rx (rx_ended_count cfg p gs) = n_rx gs + 1"
  "active (rx_ended_count cfg p gs) = active gs"
  "initiator_id (rx_ended_count cfg p gs) = initiator_id gs"
  "payload_len (rx_ended_count cfg p gs) = payload_len gs"
  "stats (rx_ended_count cfg p gs) = stats gs"
  by (simp_all add: rx_ended_count_def Let_def)

lemma rx_ended_count_payload:
  "payload (rx_ended_count cfg p gs) =
     (if initiator_id gs \<noteq> node_id cfg \<and> n_rx gs + 1 = 1
      then memcpy (payload gs) p (unat (payload_len gs)) else payload gs)"
  by (simp add: rx_ended_count_def Let_def IS_INITIATOR_def)

lemma rx_ended_relay_frame:
  "header (g (rx_ended_relay cfg now p s)) = (header (g s))\<lparr>relay_cnt := relay_cnt (header (g s)) + 1\<rparr>"
  "n_tx (g (rx_ended_relay cfg now p s)) = n_tx (g s)"
  "n_rx (g (rx_ended_relay cfg now p s)) = n_rx (g s)"
  "initiator_id (g (rx_ended_relay cfg now p s)) = initiator_id (g s)"
  "payload (g (rx_ended_relay cfg now p s)) = payload (g s)"
  "payload_len (g (rx_ended_relay cfg now p s)) = payload_len (g s)"
  by (simp_all add: rx_ended_relay_def Let_def glossy_stop_header glossy_stop_n_tx glossy_stop_n_rx
      glossy_stop_initiator_id glossy_stop_payload glossy_stop_payload_len)

lemma rx_ended_relay_active:
  "active (g (rx_ended_relay cfg now p s)) =
     (if GET_N_TX_MAX (pkt_type (header (g s))) = 0 \<or> n_tx (g s) < GET_N_TX_MAX (pkt_type (header (g s)))
      then active (g s) else 0)"
  by (simp add: rx_ended_relay_def Let_def glossy_stop_active_after)

lemma rx_ended_relay_calls:
  "GET_N_TX_MAX (pkt_type (header (g s))) = 0 \<or> n_tx (g s) < GET_N_TX_MAX (pkt_type (header (g s))) \<Longrightarrow>
   calls (rx_ended_relay cfg now p s) =
     calls s @ [Rf1a_write_to_tx_fifo
                  (bytes_of (header_bytes ((header (g s))\<lparr>relay_cnt := relay_cnt (header (g s)) + 1\<rparr>))
                     (GLOSSY_HEADER_LEN cfg (g s)))
                  (bytes_of p (unat (payload_len (g s))))]"
  by (simp add: rx_ended_relay_def Let_def GLOSSY_HEADER_LEN_alt)

lemma rx_ended_accepted_frame:
  "header (g (rx_ended_accepted cfg now rssi pkt s)) =
     (header (g s))\<lparr>relay_cnt := relay_cnt (header (g s)) + 1\<rparr>"
  "n_tx (g (rx_ended_accepted cfg now rssi pkt s)) = n_tx (g s)"
  "n_rx (g (rx_ended_accepted cfg now rssi pkt s)) = n_rx (g s) + 1"
  "initiator_id (g (rx_ended_accepted cfg now rssi pkt s)) = initiator_id (g s)"
  "payload_len (g (rx_ended_accepted cfg now rssi pkt s)) = payload_len (g s)"
  "calls (rx_ended_accepted cfg now rssi pkt s) =
     calls (rx_ended_relay cfg now (\<lambda>i. pkt (GLOSSY_HEADER_LEN cfg (g s) + i)) s)"
  "active (g (rx_ended_accepted cfg now rssi pkt s)) =
     active (g (rx_ended_relay cfg now (\<lambda>i. pkt (GLOSSY_HEADER_LEN cfg (g s) + i)) s))"
  by (simp_all add: rx_ended_accepted_def Let_def rx_ended_sync_frame rx_ended_count_frame
      rx_ended_stats_frame rx_ended_relay_frame)

lemma rx_ended_accepted_payload:
  "payload (g (rx_ended_accepted cfg now rssi pkt s)) =
     (if initiator_id (g s) \<noteq> node_id cfg \<and> n_rx (g s) + 1 = 1
      then memcpy (payload (g s)) (\<lambda>i. pkt (GLOSSY_HEADER_LEN cfg (g s) + i)) (unat (payload_len (g s)))
      else payload (g s))"
  by (simp add: rx_ended_accepted_def Let_def rx_ended_sync_frame rx_ended_count_frame
      rx_ended_count_payload rx_ended_stats_frame rx_ended_relay_frame)

subsection \<open>Relaying a received packet\<close>

lemma process_glossy_header_cong:
  assumes "header_ok (g s') = header_ok (g s)" "header (g s') = header (g s)"
    "payload_len (g s') = payload_len (g s)"
  shows "snd (process_glossy_header cfg pkt pkt_len crc_ok s') =
         snd (process_glossy_header cfg pkt pkt_len crc_ok s)"
  using assms by (simp add: process_glossy_header_result GLOSSY_HEADER_LEN_alt)

lemma rx_ended_pre_frame:
  "header_ok (g (rx_ended_pre cfg ts s)) = header_ok (g s)"
  "header (g (rx_ended_pre cfg ts s)) = header (g s)"
  "payload_len (g (rx_ended_pre cfg ts s)) = payload_len (g s)"
  "n_tx (g (rx_ended_pre cfg ts s)) = n_tx (g s)"
  "n_rx (g (rx_ended_pre cfg ts s)) = n_rx (g s)"
  "active (g (rx_ended_pre cfg ts s)) = active (g s)"
  "initiator_id (g (rx_ended_pre cfg ts s)) = initiator_id (g s)"
  "payload (g (rx_ended_pre cfg ts s)) = payload (g s)"
  "calls (rx_ended_pre cfg ts s) = calls s @ [Rtimer_ext_update_enable]"
  by (simp_all add: rx_ended_pre_def Let_def)

lemma rx_ended_pre_accept:
  "snd (process_glossy_header cfg pkt pkt_len crc_ok (rx_ended_pre cfg ts s)) =
   snd (process_glossy_header cfg pkt pkt_len crc_ok s)"
  by (rule process_glossy_header_cong) (simp_all add: rx_ended_pre_frame)

text \<open>The state in which the accepted branch of \<^verbatim>\<open>glossy_rx_ended\<close> starts.\<close>

lemma glossy_rx_ended_accepted:
  assumes acc: "snd (process_glossy_header cfg pkt pkt_len 1 s) \<noteq> 0"
  shows "glossy_rx_ended cfg now rssi ts pkt pkt_len s =
           rx_ended_accepted cfg now rssi pkt
             (fst (process_glossy_header cfg pkt pkt_len 1 (rx_ended_pre cfg ts s)))"
    and "header (g (fst (process_glossy_header cfg pkt pkt_len 1 (rx_ended_pre cfg ts s)))) =
           \<lparr>pkt_type = pkt 0, relay_cnt = pkt 1\<rparr>"
    and "payload_len (g (fst (process_glossy_header cfg pkt pkt_len 1 (rx_ended_pre cfg ts s)))) =
           pkt_len - (if GET_SYNC (pkt 0) \<noteq> 0 \<or> GLOSSY_CONF_ALWAYS_RELAY_CNT cfg then 2 else 1)"
    and "n_tx (g (fst (process_glossy_header cfg pkt pkt_len 1 (rx_ended_pre cfg ts s)))) = n_tx (g s)"
    and "n_rx (g (fst (process_glossy_header cfg pkt pkt_len 1 (rx_ended_pre cfg ts s)))) = n_rx (g s)"
    and "active (g (fst (process_glossy_header cfg pkt pkt_len 1 (rx_ended_pre cfg ts s)))) = active (g s)"
    and "initiator_id (g (fst (process_glossy_header cfg pkt pkt_len 1 (rx_ended_pre cfg ts s)))) =
           initiator_id (g s)"
    and "payload (g (fst (process_glossy_header cfg pkt pkt_len 1 (rx_ended_pre cfg ts s)))) =
           payload (g s)"
    and "calls (fst (process_glossy_header cfg pkt pkt_len 1 (rx_ended_pre cfg ts s))) =
           calls s @ [Rtimer_ext_update_enable,
             Rf1a_set_header_len_rx
               (if GET_SYNC (pkt 0) \<noteq> 0 \<or> GLOSSY_CONF_ALWAYS_RELAY_CNT cfg then 2 else 1)]"
proof -
  have acc': "snd (process_glossy_header cfg pkt pkt_len 1 (rx_ended_pre cfg ts s)) \<noteq> 0"
    unfolding rx_ended_pre_accept by (rule acc)
  show "glossy_rx_ended cfg now rssi ts pkt pkt_len s =
           rx_ended_accepted cfg now rssi pkt
             (fst (process_glossy_header cfg pkt pkt_len 1 (rx_ended_pre cfg ts s)))"
    using acc' by (simp add: glossy_rx_ended_def case_prod_beta)
  note st = process_glossy_header_state_crc [OF acc']
  show "header (g (fst (process_glossy_header cfg pkt pkt_len 1 (rx_ended_pre cfg ts s)))) =
           \<lparr>pkt_type = pkt 0, relay_cnt = pkt 1\<rparr>"
    by (simp add: st)
  show "payload_len (g (fst (process_glossy_header cfg pkt pkt_len 1 (rx_ended_pre cfg ts s)))) =
           pkt_len - (if GET_SYNC (pkt 0) \<noteq> 0 \<or> GLOSSY_CONF_ALWAYS_RELAY_CNT cfg then 2 else 1)"
    by (simp add: st)
  show "n_tx (g (fst (process_glossy_header cfg pkt pkt_len 1 (rx_ended_pre cfg ts s)))) = n_tx (g s)"
    by (simp add: st rx_ended_pre_frame)
  show "n_rx (g (fst (process_glossy_header cfg pkt pkt_len 1 (rx_ended_pre cfg ts s)))) = n_rx (g s)"
    by (simp add: st rx_ended_pre_frame)
  show "active (g (fst (process_glossy_header cfg pkt pkt_len 1 (rx_ended_pre cfg ts s)))) = active (g s)"
    by (simp add: st rx_ended_pre_frame)
  show "initiator_id (g (fst (process_glossy_header cfg pkt pkt_len 1 (rx_ended_pre cfg ts s)))) =
           initiator_id (g s)"
    by (simp add: st rx_ended_pre_frame)
  show "payload (g (fst (process_glossy_header cfg pkt pkt_len 1 (rx_ended_pre cfg ts s)))) =
           payload (g s)"
    by (simp add: st rx_ended_pre_frame)
  show "calls (fst (process_glossy_header cfg pkt pkt_len 1 (rx_ended_pre cfg ts s))) =
           calls s @ [Rtimer_ext_update_enable,
             Rf1a_set_header_len_rx
               (if GET_SYNC (pkt 0) \<noteq> 0 \<or> GLOSSY_CONF_ALWAYS_RELAY_CNT cfg then 2 else 1)]"
    by (simp add: st rx_ended_pre_frame)
qed

lemma header_bytes_2: "bytes_of (header_bytes h) 2 = [pkt_type h, relay_cnt h]"
  by (simp add: bytes_of_def header_bytes_def upt_rec)

lemma header_bytes_1: "bytes_of (header_bytes h) (Suc 0) = [pkt_type h]"
  by (simp add: bytes_of_def header_bytes_def)

text \<open>
  When \<^verbatim>\<open>glossy_rx_ended\<close> is called with a packet that
  \<^verbatim>\<open>process_glossy_header\<close> accepts (valid header, CRC ok) and the packet is relayed
  (\<open>n_tx_max\<close> is 0 or \<open>n_tx < n_tx_max\<close>), the callback issues exactly three calls:
  it re-enables the timer update, sets the header length, and writes the outgoing packet
  into the TX FIFO. The header written is the received packet type followed, when the
  header has a relay counter, by the result of \<^verbatim>\<open>g.header.relay_cnt++\<close> on the received
  relay counter, an addition in 8 bits; the same counter is stored in \<open>g.header\<close>.
\<close>

lemma glossy_rx_ended_relays:
  assumes acc: "snd (process_glossy_header cfg pkt pkt_len 1 s) \<noteq> 0"
    and relay: "GET_N_TX_MAX (pkt 0) = 0 \<or> n_tx (g s) < GET_N_TX_MAX (pkt 0)"
  shows "calls (glossy_rx_ended cfg now rssi ts pkt pkt_len s) =
     calls s @
       [Rtimer_ext_update_enable,
        Rf1a_set_header_len_rx
          (if GET_SYNC (pkt 0) \<noteq> 0 \<or> GLOSSY_CONF_ALWAYS_RELAY_CNT cfg then 2 else 1),
        Rf1a_write_to_tx_fifo
          (if GET_SYNC (pkt 0) \<noteq> 0 \<or> GLOSSY_CONF_ALWAYS_RELAY_CNT cfg
           then [pkt 0, pkt 1 + 1] else [pkt 0])
          (bytes_of
            (\<lambda>i. pkt ((if GET_SYNC (pkt 0) \<noteq> 0 \<or> GLOSSY_CONF_ALWAYS_RELAY_CNT cfg then 2 else 1) + i))
            (unat (pkt_len -
               (if GET_SYNC (pkt 0) \<noteq> 0 \<or> GLOSSY_CONF_ALWAYS_RELAY_CNT cfg then 2 else 1))))] \<and>
   header (g (glossy_rx_ended cfg now rssi ts pkt pkt_len s)) =
     \<lparr>pkt_type = pkt 0, relay_cnt = pkt 1 + 1\<rparr>"
proof -
  let ?s1 = "fst (process_glossy_header cfg pkt pkt_len 1 (rx_ended_pre cfg ts s))"
  note a1 = glossy_rx_ended_accepted(1) [OF acc, where now = now and rssi = rssi and ts = ts]
  note a = glossy_rx_ended_accepted(2-9) [OF acc, where ts = ts]
  have relay1: "GET_N_TX_MAX (pkt_type (header (g ?s1))) = 0 \<or>
                n_tx (g ?s1) < GET_N_TX_MAX (pkt_type (header (g ?s1)))"
    using relay by (simp add: a)
  have hl: "GLOSSY_HEADER_LEN cfg (g ?s1) =
            (if GET_SYNC (pkt 0) \<noteq> 0 \<or> GLOSSY_CONF_ALWAYS_RELAY_CNT cfg then 2 else 1)"
    by (simp add: GLOSSY_HEADER_LEN_alt a)
  have "calls (glossy_rx_ended cfg now rssi ts pkt pkt_len s) =
        calls (rx_ended_relay cfg now (\<lambda>i. pkt (GLOSSY_HEADER_LEN cfg (g ?s1) + i)) ?s1)"
    by (simp only: a1 rx_ended_accepted_frame)
  also have "\<dots> = calls ?s1 @
      [Rf1a_write_to_tx_fifo
         (bytes_of (header_bytes ((header (g ?s1))\<lparr>relay_cnt := relay_cnt (header (g ?s1)) + 1\<rparr>))
            (GLOSSY_HEADER_LEN cfg (g ?s1)))
         (bytes_of (\<lambda>i. pkt (GLOSSY_HEADER_LEN cfg (g ?s1) + i)) (unat (payload_len (g ?s1))))]"
    by (rule rx_ended_relay_calls [OF relay1])
  finally have c: "calls (glossy_rx_ended cfg now rssi ts pkt pkt_len s) = calls ?s1 @
      [Rf1a_write_to_tx_fifo
         (bytes_of (header_bytes ((header (g ?s1))\<lparr>relay_cnt := relay_cnt (header (g ?s1)) + 1\<rparr>))
            (GLOSSY_HEADER_LEN cfg (g ?s1)))
         (bytes_of (\<lambda>i. pkt (GLOSSY_HEADER_LEN cfg (g ?s1) + i)) (unat (payload_len (g ?s1))))]" .
  have h: "header (g (glossy_rx_ended cfg now rssi ts pkt pkt_len s)) =
           \<lparr>pkt_type = pkt 0, relay_cnt = pkt 1 + 1\<rparr>"
    by (simp add: a1 rx_ended_accepted_frame a)
  show ?thesis
    unfolding c hl using h
    by (simp add: a header_bytes_2 header_bytes_1)
qed

lemma receiver_sync_fields:
  "header_ok (g receiver_sync) = 0" "pkt_type (header (g receiver_sync)) = 0x90"
  "payload_len (g receiver_sync) = 0" "active (g receiver_sync) = 1"
  "n_tx (g receiver_sync) = 0" "n_rx (g receiver_sync) = 0"
  "initiator_id (g receiver_sync) = 2"
  by (simp_all add: receiver_sync_def glossy_start_def Let_def conf0_def node_zero_def
      glossy_state_zero_def IS_INITIATOR_def SET_PKT_TYPE_def GLOSSY_COMMON_HEADER_def
      GLOSSY_HEADER_BYTE_MASK_def GLOSSY_HEADER_SYNC_MASK_def GLOSSY_HEADER_N_TX_MASK_def reads0_def)

lemma masks_eval_sync:
  "GET_SYNC 0x90 = 0x10" "GET_N_TX_MAX 0x90 = 0" "GET_COMMON_HEADER 0x90 = 0x80"
  by (simp_all add: GET_SYNC_def GET_N_TX_MAX_def GET_COMMON_HEADER_def
      GLOSSY_HEADER_BYTE_MASK_def GLOSSY_HEADER_SYNC_MASK_def GLOSSY_HEADER_N_TX_MASK_def)

text \<open>
  C1, as amended. For a reception that \<^verbatim>\<open>process_glossy_header\<close> accepts and that is
  relayed, with a received relay counter below 255, the relay counter written into the
  header of the outgoing packet and stored in \<open>g.header\<close> is, as a number, the received
  relay counter plus 1.
\<close>

theorem glossy_rx_ended_relay_cnt_incremented:
  assumes acc: "snd (process_glossy_header cfg pkt pkt_len 1 s) \<noteq> 0"
    and relay: "GET_N_TX_MAX (pkt 0) = 0 \<or> n_tx (g s) < GET_N_TX_MAX (pkt 0)"
    and below: "unat (pkt 1) < 255"
  shows "calls (glossy_rx_ended cfg now rssi ts pkt pkt_len s) =
     calls s @
       [Rtimer_ext_update_enable,
        Rf1a_set_header_len_rx
          (if GET_SYNC (pkt 0) \<noteq> 0 \<or> GLOSSY_CONF_ALWAYS_RELAY_CNT cfg then 2 else 1),
        Rf1a_write_to_tx_fifo
          (if GET_SYNC (pkt 0) \<noteq> 0 \<or> GLOSSY_CONF_ALWAYS_RELAY_CNT cfg
           then [pkt 0, relay_cnt (header (g (glossy_rx_ended cfg now rssi ts pkt pkt_len s)))]
           else [pkt 0])
          (bytes_of
            (\<lambda>i. pkt ((if GET_SYNC (pkt 0) \<noteq> 0 \<or> GLOSSY_CONF_ALWAYS_RELAY_CNT cfg then 2 else 1) + i))
            (unat (pkt_len -
               (if GET_SYNC (pkt 0) \<noteq> 0 \<or> GLOSSY_CONF_ALWAYS_RELAY_CNT cfg then 2 else 1))))] \<and>
   unat (relay_cnt (header (g (glossy_rx_ended cfg now rssi ts pkt pkt_len s)))) = unat (pkt 1) + 1"
proof -
  note r = glossy_rx_ended_relays [OF acc relay, of now rssi ts]
  have h: "relay_cnt (header (g (glossy_rx_ended cfg now rssi ts pkt pkt_len s))) = pkt 1 + 1"
    using r by simp
  have u: "unat (pkt 1 + 1) = unat (pkt 1) + 1"
    using below by (simp add: unat_plus_if')
  show ?thesis
    unfolding h using r u by simp
qed

text \<open>
  A synchronised receiver gets the packet with relay counter 3 and payload \<open>WORLD\<close>, and
  relays it with relay counter 4.
\<close>

theorem glossy_rx_ended_relay_cnt_incremented_witness:
  "snd (process_glossy_header conf0 (pkt_of [0x93, 3, 0x57, 0x4f, 0x52, 0x4c, 0x44]) 7 1 receiver_sync) \<noteq> 0 \<and>
   (GET_N_TX_MAX (pkt_of [0x93, 3, 0x57, 0x4f, 0x52, 0x4c, 0x44] 0) = 0 \<or>
    n_tx (g receiver_sync) < GET_N_TX_MAX (pkt_of [0x93, 3, 0x57, 0x4f, 0x52, 0x4c, 0x44] 0)) \<and>
   unat (pkt_of [0x93, 3, 0x57, 0x4f, 0x52, 0x4c, 0x44] 1) < 255 \<and>
   calls (glossy_rx_ended conf0 0 0 5000 (pkt_of [0x93, 3, 0x57, 0x4f, 0x52, 0x4c, 0x44]) 7 receiver_sync) =
     calls receiver_sync @
       [Rtimer_ext_update_enable, Rf1a_set_header_len_rx 2,
        Rf1a_write_to_tx_fifo [0x93, 4] [0x57, 0x4f, 0x52, 0x4c, 0x44]] \<and>
   unat (relay_cnt (header (g (glossy_rx_ended conf0 0 0 5000
     (pkt_of [0x93, 3, 0x57, 0x4f, 0x52, 0x4c, 0x44]) 7 receiver_sync)))) = 4"
proof -
  let ?pkt = "pkt_of [0x93, 3, 0x57, 0x4f, 0x52, 0x4c, 0x44]"
  have p: "?pkt 0 = 0x93" "?pkt 1 = 3" "?pkt (Suc 0) = 3" by (simp_all add: pkt_of_def)
  have acc: "snd (process_glossy_header conf0 ?pkt 7 1 receiver_sync) \<noteq> 0"
    by (simp add: process_glossy_header_result receiver_sync_fields masks_eval masks_eval_sync
        conf0_fields p GLOSSY_HEADER_LEN_alt)
  have relay: "GET_N_TX_MAX (?pkt 0) = 0 \<or> n_tx (g receiver_sync) < GET_N_TX_MAX (?pkt 0)"
    by (simp add: p masks_eval receiver_sync_fields)
  have below: "unat (?pkt 1) < 255" by (simp add: p)
  have b: "bytes_of (\<lambda>i. ?pkt (Suc (Suc i))) 5 = [0x57, 0x4f, 0x52, 0x4c, 0x44]"
    by (simp add: bytes_of_def pkt_of_def upt_rec)
  note t = glossy_rx_ended_relay_cnt_incremented [OF acc relay below, of 0 0 5000]
  have u: "unat (relay_cnt (header (g (glossy_rx_ended conf0 0 0 5000 ?pkt 7 receiver_sync)))) = 4"
    using t by (simp add: p)
  then have w: "relay_cnt (header (g (glossy_rx_ended conf0 0 0 5000 ?pkt 7 receiver_sync))) = 4"
    by (simp add: word_unat_eq_iff)
  show ?thesis
    using acc relay below t u
    by (simp add: p masks_eval b w)
qed

text \<open>
  C1 as stated fails at the top of the counter. The same receiver gets the packet with
  relay counter 255: the packet is accepted and relayed, the received relay counter plus 1
  is 256, and the relay counter written into the TX FIFO and stored in \<open>g.header\<close> is 0.
\<close>

theorem glossy_rx_ended_relay_cnt_wrap_counterexample:
  "snd (process_glossy_header conf0 (pkt_of [0x93, 255, 0x57, 0x4f, 0x52, 0x4c, 0x44]) 7 1 receiver_sync) \<noteq> 0 \<and>
   (GET_N_TX_MAX (pkt_of [0x93, 255, 0x57, 0x4f, 0x52, 0x4c, 0x44] 0) = 0 \<or>
    n_tx (g receiver_sync) < GET_N_TX_MAX (pkt_of [0x93, 255, 0x57, 0x4f, 0x52, 0x4c, 0x44] 0)) \<and>
   unat (pkt_of [0x93, 255, 0x57, 0x4f, 0x52, 0x4c, 0x44] 1) + 1 = 256 \<and>
   calls (glossy_rx_ended conf0 0 0 5000 (pkt_of [0x93, 255, 0x57, 0x4f, 0x52, 0x4c, 0x44]) 7 receiver_sync) =
     calls receiver_sync @
       [Rtimer_ext_update_enable, Rf1a_set_header_len_rx 2,
        Rf1a_write_to_tx_fifo [0x93, 0] [0x57, 0x4f, 0x52, 0x4c, 0x44]] \<and>
   unat (relay_cnt (header (g (glossy_rx_ended conf0 0 0 5000
     (pkt_of [0x93, 255, 0x57, 0x4f, 0x52, 0x4c, 0x44]) 7 receiver_sync)))) = 0"
proof -
  let ?pkt = "pkt_of [0x93, 255, 0x57, 0x4f, 0x52, 0x4c, 0x44]"
  have p: "?pkt 0 = 0x93" "?pkt 1 = 255" "?pkt (Suc 0) = 255" by (simp_all add: pkt_of_def)
  have acc: "snd (process_glossy_header conf0 ?pkt 7 1 receiver_sync) \<noteq> 0"
    by (simp add: process_glossy_header_result receiver_sync_fields masks_eval masks_eval_sync
        conf0_fields p GLOSSY_HEADER_LEN_alt)
  have relay: "GET_N_TX_MAX (?pkt 0) = 0 \<or> n_tx (g receiver_sync) < GET_N_TX_MAX (?pkt 0)"
    by (simp add: p masks_eval receiver_sync_fields)
  have b: "bytes_of (\<lambda>i. ?pkt (Suc (Suc i))) 5 = [0x57, 0x4f, 0x52, 0x4c, 0x44]"
    by (simp add: bytes_of_def pkt_of_def upt_rec)
  show ?thesis
    using acc relay glossy_rx_ended_relays [OF acc relay, of 0 0 5000]
    by (simp add: p masks_eval b)
qed
subsection \<open>Callbacks on an inactive flood\<close>

lemma count_rx_fail_frame:
  "count_rx_fail cfg gs = gs\<lparr>stats := stats (count_rx_fail cfg gs)\<rparr>"
  "\<not> GLOSSY_CONF_COLLECT_STATS cfg \<Longrightarrow> count_rx_fail cfg gs = gs"
  by (simp_all add: count_rx_fail_def)

lemma glossy_rx_failed_inactive:
  assumes "active (g s) = 0"
  shows "glossy_rx_failed cfg ts s = hw Rtimer_ext_update_enable (s\<lparr>g := count_rx_fail cfg (g s)\<rparr>)"
proof -
  have "active (count_rx_fail cfg (g s)) = 0"
    using assms by (simp add: count_rx_fail_def)
  then show ?thesis by (simp add: glossy_rx_failed_def Let_def)
qed

lemma glossy_rx_tx_error_inactive:
  assumes "active (g s) = 0"
  shows "glossy_rx_tx_error cfg ts s =
           hw Rtimer_ext_update_enable
             (s\<lparr>g := (if GLOSSY_CONF_COLLECT_STATS cfg
                        then (g s)\<lparr>stats := (stats (g s))\<lparr>error_cnt := error_cnt (stats (g s)) + 1\<rparr>\<rparr>
                        else g s)\<rparr>)"
  using assms by (simp add: glossy_rx_tx_error_def Let_def)

text \<open>
  C5, as amended. While the flood is inactive, \<^verbatim>\<open>glossy_rx_failed\<close> and
  \<^verbatim>\<open>glossy_rx_tx_error\<close> issue no radio command (they only re-enable the timer
  update interrupt) and change no field of the flood state other than the statistics;
  without \<^verbatim>\<open>GLOSSY_CONF_COLLECT_STATS\<close> they change nothing. These are the two
  callbacks that test \<open>active\<close>.
\<close>

theorem inactive_failure_callbacks:
  assumes "active (g s) = 0"
  shows "calls (glossy_rx_failed cfg ts s) = calls s @ [Rtimer_ext_update_enable] \<and>
         g (glossy_rx_failed cfg ts s) = (g s)\<lparr>stats := stats (g (glossy_rx_failed cfg ts s))\<rparr> \<and>
         calls (glossy_rx_tx_error cfg ts s) = calls s @ [Rtimer_ext_update_enable] \<and>
         g (glossy_rx_tx_error cfg ts s) = (g s)\<lparr>stats := stats (g (glossy_rx_tx_error cfg ts s))\<rparr> \<and>
         (\<not> GLOSSY_CONF_COLLECT_STATS cfg \<longrightarrow>
            g (glossy_rx_failed cfg ts s) = g s \<and> g (glossy_rx_tx_error cfg ts s) = g s)"
proof -
  have f: "g (glossy_rx_failed cfg ts s) = count_rx_fail cfg (g s)"
    and fc: "calls (glossy_rx_failed cfg ts s) = calls s @ [Rtimer_ext_update_enable]"
    by (simp_all add: glossy_rx_failed_inactive [OF assms])
  have "g (glossy_rx_failed cfg ts s) = (g s)\<lparr>stats := stats (g (glossy_rx_failed cfg ts s))\<rparr>"
    unfolding f by (rule count_rx_fail_frame(1))
  moreover have "calls (glossy_rx_tx_error cfg ts s) = calls s @ [Rtimer_ext_update_enable]"
    by (simp add: glossy_rx_tx_error_inactive [OF assms])
  moreover have "g (glossy_rx_tx_error cfg ts s) =
                 (g s)\<lparr>stats := stats (g (glossy_rx_tx_error cfg ts s))\<rparr>"
    by (simp add: glossy_rx_tx_error_inactive [OF assms])
  moreover have "\<not> GLOSSY_CONF_COLLECT_STATS cfg \<longrightarrow>
            g (glossy_rx_failed cfg ts s) = g s \<and> g (glossy_rx_tx_error cfg ts s) = g s"
    by (simp add: f count_rx_fail_frame(2) glossy_rx_tx_error_inactive [OF assms])
  ultimately show ?thesis using fc by blast
qed

lemma stopped_receiver_fields:
  "active (g stopped_receiver) = 0" "t_rx_start (g stopped_receiver) = 0"
  "n_tx (g stopped_receiver) = 0" "header_ok (g stopped_receiver) = 0"
  "pkt_type (header (g stopped_receiver)) = 0x80"
  "error_cnt (stats (g stopped_receiver)) = 0"
  by (simp_all add: stopped_receiver_def glossy_stop_def Let_def receiver_unknown_def glossy_start_def
      conf0_def node_zero_def
      glossy_state_zero_def IS_INITIATOR_def SET_PKT_TYPE_def GLOSSY_COMMON_HEADER_def
      GLOSSY_HEADER_BYTE_MASK_def GLOSSY_HEADER_SYNC_MASK_def GLOSSY_HEADER_N_TX_MASK_def reads0_def)

text \<open>A receiver after \<^verbatim>\<open>glossy_stop\<close>.\<close>

theorem inactive_failure_callbacks_witness:
  "active (g stopped_receiver) = 0 \<and>
   calls (glossy_rx_failed conf0 5000 stopped_receiver) =
     calls stopped_receiver @ [Rtimer_ext_update_enable] \<and>
   calls (glossy_rx_tx_error conf0 5000 stopped_receiver) =
     calls stopped_receiver @ [Rtimer_ext_update_enable]"
proof -
  have h: "active (g stopped_receiver) = 0" by (simp add: stopped_receiver_fields)
  show ?thesis using h inactive_failure_callbacks [OF h, of conf0 5000] by blast
qed

text \<open>
  C5 as stated fails: \<^verbatim>\<open>glossy_rx_started\<close> does not test \<open>active\<close>. Delivered
  after \<^verbatim>\<open>glossy_stop\<close>, it overwrites \<open>t_rx_start\<close>.
\<close>

theorem inactive_rx_started_counterexample:
  "active (g stopped_receiver) = 0 \<and>
   t_rx_start (g stopped_receiver) = 0 \<and>
   t_rx_start (g (glossy_rx_started conf0 5000 stopped_receiver)) = 5000"
  by (simp add: stopped_receiver_fields glossy_rx_started_def Let_def)

text \<open>What \<^verbatim>\<open>glossy_tx_started\<close> and \<^verbatim>\<open>glossy_rx_started\<close> write in every state.\<close>

lemma glossy_tx_started_writes:
  "t_tx_start (g (glossy_tx_started ts s)) = ts"
  by (simp add: glossy_tx_started_def)

lemma glossy_rx_started_writes:
  "t_rx_start (g (glossy_rx_started cfg ts s)) = ts" "header_ok (g (glossy_rx_started cfg ts s)) = 0"
  by (simp_all add: glossy_rx_started_def Let_def)

subsection \<open>The fields that decide how a flood ends\<close>

lemma count_rx_fail_fields:
  "n_tx (count_rx_fail cfg gs) = n_tx gs" "n_rx (count_rx_fail cfg gs) = n_rx gs"
  "active (count_rx_fail cfg gs) = active gs" "header (count_rx_fail cfg gs) = header gs"
  "initiator_id (count_rx_fail cfg gs) = initiator_id gs" "payload (count_rx_fail cfg gs) = payload gs"
  by (simp_all add: count_rx_fail_def)

lemma glossy_rx_failed_fields:
  "n_tx (g (glossy_rx_failed cfg ts s)) = n_tx (g s)" "n_rx (g (glossy_rx_failed cfg ts s)) = n_rx (g s)"
  "active (g (glossy_rx_failed cfg ts s)) = active (g s)"
  "header (g (glossy_rx_failed cfg ts s)) = header (g s)"
  "initiator_id (g (glossy_rx_failed cfg ts s)) = initiator_id (g s)"
  "payload (g (glossy_rx_failed cfg ts s)) = payload (g s)"
  by (simp_all add: glossy_rx_failed_def Let_def count_rx_fail_fields)

lemma glossy_rx_tx_error_fields:
  "n_tx (g (glossy_rx_tx_error cfg ts s)) = n_tx (g s)"
  "n_rx (g (glossy_rx_tx_error cfg ts s)) = n_rx (g s)"
  "active (g (glossy_rx_tx_error cfg ts s)) = active (g s)"
  "header (g (glossy_rx_tx_error cfg ts s)) = header (g s)"
  "initiator_id (g (glossy_rx_tx_error cfg ts s)) = initiator_id (g s)"
  "payload (g (glossy_rx_tx_error cfg ts s)) = payload (g s)"
  by (simp_all add: glossy_rx_tx_error_def Let_def)

lemma glossy_rx_started_fields:
  "n_tx (g (glossy_rx_started cfg ts s)) = n_tx (g s)"
  "n_rx (g (glossy_rx_started cfg ts s)) = n_rx (g s)"
  "active (g (glossy_rx_started cfg ts s)) = active (g s)"
  "header (g (glossy_rx_started cfg ts s)) = header (g s)"
  "initiator_id (g (glossy_rx_started cfg ts s)) = initiator_id (g s)"
  "payload (g (glossy_rx_started cfg ts s)) = payload (g s)"
  by (simp_all add: glossy_rx_started_def Let_def)

lemma glossy_tx_started_fields:
  "n_tx (g (glossy_tx_started ts s)) = n_tx (g s)"
  "n_rx (g (glossy_tx_started ts s)) = n_rx (g s)"
  "active (g (glossy_tx_started ts s)) = active (g s)"
  "header (g (glossy_tx_started ts s)) = header (g s)"
  "initiator_id (g (glossy_tx_started ts s)) = initiator_id (g s)"
  "payload (g (glossy_tx_started ts s)) = payload (g s)"
  by (simp_all add: glossy_tx_started_def)

lemma timeout_expired_fields:
  "n_tx (g (timeout_expired cfg busy rt s)) = n_tx (g s)"
  "n_rx (g (timeout_expired cfg busy rt s)) = n_rx (g s)"
  "active (g (timeout_expired cfg busy rt s)) = active (g s)"
  "pkt_type (header (g (timeout_expired cfg busy rt s))) = pkt_type (header (g s))"
  "initiator_id (g (timeout_expired cfg busy rt s)) = initiator_id (g s)"
  "payload (g (timeout_expired cfg busy rt s)) = payload (g s)"
  by (simp_all add: timeout_expired_def Let_def)

lemma schedule_timeout_fields:
  "n_tx (g (schedule_timeout cfg s)) = n_tx (g s)"
  "n_rx (g (schedule_timeout cfg s)) = n_rx (g s)"
  "active (g (schedule_timeout cfg s)) = active (g s)"
  "header (g (schedule_timeout cfg s)) = header (g s)"
  "initiator_id (g (schedule_timeout cfg s)) = initiator_id (g s)"
  "payload (g (schedule_timeout cfg s)) = payload (g s)"
  by (simp_all add: schedule_timeout_def Let_def)

lemma glossy_header_received_fields:
  "n_tx (g (glossy_header_received cfg ts hdr len s)) = n_tx (g s) \<and>
   n_rx (g (glossy_header_received cfg ts hdr len s)) = n_rx (g s) \<and>
   active (g (glossy_header_received cfg ts hdr len s)) = active (g s) \<and>
   header (g (glossy_header_received cfg ts hdr len s)) = header (g s) \<and>
   initiator_id (g (glossy_header_received cfg ts hdr len s)) = initiator_id (g s) \<and>
   payload (g (glossy_header_received cfg ts hdr len s)) = payload (g s)"
proof -
  obtain v where v: "fst (process_glossy_header cfg hdr len 0 s) = s\<lparr>g := (g s)\<lparr>header_ok := v\<rparr>\<rparr>"
    using process_glossy_header_state_other [of 0 cfg hdr len s] by auto
  show ?thesis
    by (simp add: glossy_header_received_def case_prod_beta v glossy_rx_failed_fields
        count_rx_fail_fields)
qed

lemma glossy_rx_ended_rejected_fields:
  assumes "snd (process_glossy_header cfg pkt len 1 s) = 0"
  shows "n_tx (g (glossy_rx_ended cfg now rssi ts pkt len s)) = n_tx (g s) \<and>
   n_rx (g (glossy_rx_ended cfg now rssi ts pkt len s)) = n_rx (g s) \<and>
   active (g (glossy_rx_ended cfg now rssi ts pkt len s)) = active (g s) \<and>
   header (g (glossy_rx_ended cfg now rssi ts pkt len s)) = header (g s) \<and>
   initiator_id (g (glossy_rx_ended cfg now rssi ts pkt len s)) = initiator_id (g s) \<and>
   payload (g (glossy_rx_ended cfg now rssi ts pkt len s)) = payload (g s)"
proof -
  have rej: "snd (process_glossy_header cfg pkt len 1 (rx_ended_pre cfg ts s)) = 0"
    unfolding rx_ended_pre_accept by (rule assms)
  then obtain v where v: "fst (process_glossy_header cfg pkt len 1 (rx_ended_pre cfg ts s)) =
      (rx_ended_pre cfg ts s)\<lparr>g := (g (rx_ended_pre cfg ts s))\<lparr>header_ok := v\<rparr>\<rparr>"
    using process_glossy_header_state_other [of 1 cfg pkt len "rx_ended_pre cfg ts s"] by auto
  show ?thesis
    using rej
    by (simp add: glossy_rx_ended_def case_prod_beta v glossy_rx_failed_fields
        count_rx_fail_fields rx_ended_pre_frame)
qed

lemma glossy_rx_ended_accepted_fields:
  assumes "snd (process_glossy_header cfg pkt len 1 s) \<noteq> 0"
  shows "n_tx (g (glossy_rx_ended cfg now rssi ts pkt len s)) = n_tx (g s) \<and>
   n_rx (g (glossy_rx_ended cfg now rssi ts pkt len s)) = n_rx (g s) + 1 \<and>
   active (g (glossy_rx_ended cfg now rssi ts pkt len s)) =
     (if GET_N_TX_MAX (pkt 0) = 0 \<or> n_tx (g s) < GET_N_TX_MAX (pkt 0) then active (g s) else 0) \<and>
   header (g (glossy_rx_ended cfg now rssi ts pkt len s)) = \<lparr>pkt_type = pkt 0, relay_cnt = pkt 1 + 1\<rparr> \<and>
   initiator_id (g (glossy_rx_ended cfg now rssi ts pkt len s)) = initiator_id (g s)"
proof -
  note a1 = glossy_rx_ended_accepted(1) [OF assms, where now = now and rssi = rssi and ts = ts]
  note a = glossy_rx_ended_accepted(2-9) [OF assms, where ts = ts]
  show ?thesis
    by (simp add: a1 rx_ended_accepted_frame rx_ended_relay_active a)
qed

lemma glossy_tx_ended_fields:
  "n_tx (g (glossy_tx_ended cfg now ts s)) = n_tx (g s) + 1"
  "n_rx (g (glossy_tx_ended cfg now ts s)) = n_rx (g s)"
  "header (g (glossy_tx_ended cfg now ts s)) = header (g s)"
  "initiator_id (g (glossy_tx_ended cfg now ts s)) = initiator_id (g s)"
  "payload (g (glossy_tx_ended cfg now ts s)) = payload (g s)"
  by (simp_all add: glossy_tx_ended_def Let_def tx_ended_sync_frame glossy_stop_n_tx glossy_stop_n_rx
      glossy_stop_header glossy_stop_initiator_id glossy_stop_payload
      schedule_timeout_fields)

lemma glossy_tx_ended_active:
  "active (g (glossy_tx_ended cfg now ts s)) =
     (if n_tx (g s) + 1 = GET_N_TX_MAX (pkt_type (header (g s))) \<and>
         (GET_N_TX_MAX (pkt_type (header (g s))) > 0 \<or> initiator_id (g s) \<noteq> node_id cfg)
      then 0 else active (g s))"
  by (auto simp add: glossy_tx_ended_def Let_def tx_ended_sync_frame glossy_stop_active_after
      schedule_timeout_fields IS_INITIATOR_def)

subsection \<open>The state after \<^verbatim>\<open>glossy_start\<close>\<close>

lemma GET_N_TX_MAX_SET_PKT_TYPE:
  "GET_N_TX_MAX (SET_PKT_TYPE cfg ws n) = n AND 0x0f"
proof -
  have a: "(x AND (0xe0 :: u8)) AND 0x0f = 0" for x :: u8
    by (simp add: and.assoc)
  have b: "(if ws \<noteq> 0 then (0x10 :: u8) else 0) AND 0x0f = 0"
    by simp
  show ?thesis
    unfolding GET_N_TX_MAX_def SET_PKT_TYPE_def GLOSSY_COMMON_HEADER_def GLOSSY_HEADER_BYTE_MASK_def
      GLOSSY_HEADER_SYNC_MASK_def GLOSSY_HEADER_N_TX_MASK_def
    by (simp only: bit.conj_disj_distrib2 a b and.assoc) simp
qed


lemma glossy_start_fields:
  "n_tx (g (glossy_start cfg rd ini p len n ws cal s)) = 0"
  "n_rx (g (glossy_start cfg rd ini p len n ws cal s)) = 0"
  "header (g (glossy_start cfg rd ini p len n ws cal s)) =
     \<lparr>pkt_type = SET_PKT_TYPE cfg ws n, relay_cnt = 0\<rparr>"
  "initiator_id (g (glossy_start cfg rd ini p len n ws cal s)) = ini"
  "payload (g (glossy_start cfg rd ini p len n ws cal s)) = p"
  by (simp_all add: glossy_start_def Let_def glossy_stop_n_tx glossy_stop_n_rx glossy_stop_header
      glossy_stop_initiator_id glossy_stop_payload split: option.split)

lemma glossy_start_receiver_active:
  "ini \<noteq> node_id cfg \<Longrightarrow> active (g (glossy_start cfg rd ini p len n ws cal s)) = 1"
  by (simp add: glossy_start_def Let_def IS_INITIATOR_def split: option.split)

subsection \<open>A receiver with an unbounded number of transmissions\<close>

lemma u8_inc_no_wrap:
  fixes n :: u8
  assumes "unat n < 255"
  shows "unat (n + 1) = unat n + 1" and "n + 1 \<noteq> 0"
proof -
  show u: "unat (n + 1) = unat n + 1"
    using assms by (simp add: unat_word_ariths)
  show "n + 1 \<noteq> 0"
  proof
    assume "n + 1 = 0"
    then have "unat (n + 1) = 0" by simp
    then show False using u by simp
  qed
qed

text \<open>
  One callback on a receiver whose header says \<open>n_tx_max = 0\<close>: the flood stays active,
  unless the callback is a completed transmission and \<open>n_tx\<close> was 255.
\<close>

lemma unbounded_receiver_step:
  assumes act: "active (g s) = 1"
    and unb: "GET_N_TX_MAX (pkt_type (header (g s))) = 0"
    and rcv: "initiator_id (g s) \<noteq> node_id cfg"
    and pk: "carries_n_tx_max 0 e"
    and room: "unat (n_tx (g s)) + (if is_tx_ended e then 1 else 0) \<le> 255"
  shows "active (g (dispatch cfg e s)) = 1 \<and>
         GET_N_TX_MAX (pkt_type (header (g (dispatch cfg e s)))) = 0 \<and>
         initiator_id (g (dispatch cfg e s)) \<noteq> node_id cfg \<and>
         unat (n_tx (g (dispatch cfg e s))) = unat (n_tx (g s)) + (if is_tx_ended e then 1 else 0)"
proof (cases e)
  case (Rx_started ts)
  then show ?thesis using act unb rcv by (simp add: glossy_rx_started_fields)
next
  case (Tx_started ts)
  then show ?thesis using act unb rcv by (simp add: glossy_tx_started_fields)
next
  case (Header_received ts hdr len)
  then show ?thesis using act unb rcv
    by (simp add: glossy_header_received_fields)
next
  case (Rx_ended now rssi ts pkt len)
  show ?thesis
  proof (cases "snd (process_glossy_header cfg pkt len 1 s) = 0")
    case True
    then show ?thesis using Rx_ended act unb rcv
      by (simp add: glossy_rx_ended_rejected_fields)
  next
    case False
    have "GET_N_TX_MAX (pkt 0) = 0" using pk Rx_ended by simp
    then show ?thesis using Rx_ended act rcv
      by (simp add: glossy_rx_ended_accepted_fields [OF False])
  qed
next
  case (Tx_ended now ts)
  then have "unat (n_tx (g s)) < 255" using room by simp
  then have "unat (n_tx (g s) + 1) = unat (n_tx (g s)) + 1" and "n_tx (g s) + 1 \<noteq> 0"
    by (rule u8_inc_no_wrap)+
  then show ?thesis using Tx_ended act unb rcv
    by (simp add: glossy_tx_ended_fields glossy_tx_ended_active)
next
  case (Rx_failed ts)
  then show ?thesis using act unb rcv by (simp add: glossy_rx_failed_fields)
next
  case (Rx_tx_error ts)
  then show ?thesis using act unb rcv by (simp add: glossy_rx_tx_error_fields)
next
  case (Timeout_expired busy rt)
  then show ?thesis using act unb rcv by (simp add: timeout_expired_fields)
qed

lemma unbounded_receiver_run:
  assumes "active (g s) = 1"
    and "GET_N_TX_MAX (pkt_type (header (g s))) = 0"
    and "initiator_id (g s) \<noteq> node_id cfg"
    and "\<forall>e \<in> set es. carries_n_tx_max 0 e"
    and "unat (n_tx (g s)) + length (filter is_tx_ended es) \<le> 255"
  shows "active (g (run cfg es s)) = 1"
  using assms
proof (induction es arbitrary: s)
  case Nil
  then show ?case by simp
next
  case (Cons e es)
  have room: "unat (n_tx (g s)) + (if is_tx_ended e then 1 else 0) \<le> 255"
    using Cons.prems(5) by (simp split: if_splits)
  have pk: "carries_n_tx_max 0 e" using Cons.prems(4) by simp
  note st = unbounded_receiver_step [OF Cons.prems(1) Cons.prems(2) Cons.prems(3) pk room]
  have "active (g (run cfg es (dispatch cfg e s))) = 1"
  proof (rule Cons.IH)
    show "active (g (dispatch cfg e s)) = 1" using st by blast
    show "GET_N_TX_MAX (pkt_type (header (g (dispatch cfg e s)))) = 0" using st by blast
    show "initiator_id (g (dispatch cfg e s)) \<noteq> node_id cfg" using st by blast
    show "\<forall>e \<in> set es. carries_n_tx_max 0 e" using Cons.prems(4) by simp
    have "unat (n_tx (g (dispatch cfg e s))) = unat (n_tx (g s)) + (if is_tx_ended e then 1 else 0)"
      using st by blast
    then show "unat (n_tx (g (dispatch cfg e s))) + length (filter is_tx_ended es) \<le> 255"
      using Cons.prems(5) by (simp split: if_splits)
  qed
  then show ?case by simp
qed

text \<open>
  C9, as amended. On a receiver started with \<open>n_tx_max = 0\<close>, for every sequence of
  callbacks in which the received packets carry \<open>n_tx_max = 0\<close> and at most 255
  transmissions complete, the flood is still active at the end: \<^verbatim>\<open>glossy_rx_ended\<close>
  never stops it, and \<^verbatim>\<open>glossy_tx_ended\<close> does not stop it while \<open>n_tx\<close> is
  below 255 before the call.
\<close>

theorem unbounded_receiver_stays_active:
  assumes "initiator_id0 \<noteq> node_id cfg"
    and "\<forall>e \<in> set es. carries_n_tx_max 0 e"
    and "length (filter is_tx_ended es) \<le> 255"
  shows "active (g (run cfg es
           (glossy_start cfg rd initiator_id0 payload0 payload_len0 0 with_sync with_rf_cal s0))) = 1"
proof (rule unbounded_receiver_run)
  let ?s = "glossy_start cfg rd initiator_id0 payload0 payload_len0 0 with_sync with_rf_cal s0"
  show "active (g ?s) = 1" using assms(1) by (rule glossy_start_receiver_active)
  show "GET_N_TX_MAX (pkt_type (header (g ?s))) = 0"
    by (simp add: glossy_start_fields GET_N_TX_MAX_SET_PKT_TYPE)
  show "initiator_id (g ?s) \<noteq> node_id cfg" using assms(1) by (simp add: glossy_start_fields)
  show "\<forall>e \<in> set es. carries_n_tx_max 0 e" by (rule assms(2))
  show "unat (n_tx (g ?s)) + length (filter is_tx_ended es) \<le> 255"
    using assms(3) by (simp add: glossy_start_fields)
qed

subsection \<open>The payload buffer\<close>

lemma header_ok_frame:
  "header_ok (add_T_slot_measurement m gs) = header_ok gs"
  "header_ok (rx_ended_sync cfg gs) = header_ok gs"
  "header_ok (tx_ended_sync cfg gs) = header_ok gs"
  "header_ok (rx_ended_stats cfg rc rssi gs) = header_ok gs"
  "header_ok (rx_ended_count cfg p gs) = header_ok gs"
  "header_ok (g (fst (glossy_stop cfg now s))) = header_ok (g s)"
  "header_ok (g (schedule_timeout cfg s)) = header_ok (g s)"
  by (simp_all add: add_T_slot_measurement_def rx_ended_sync_def tx_ended_sync_def
      rx_ended_stats_def rx_ended_count_def glossy_stop_def schedule_timeout_def update_t_ref_def
      Let_def)

lemma payload_len_frame:
  "payload_len (tx_ended_sync cfg gs) = payload_len gs"
  "payload_len (g (schedule_timeout cfg s)) = payload_len (g s)"
  by (simp_all add: tx_ended_sync_frame schedule_timeout_def Let_def)

lemma rx_ended_relay_header_ok:
  "header_ok (g (rx_ended_relay cfg now p s)) = header_ok (g s)"
  by (simp add: rx_ended_relay_def Let_def header_ok_frame)

lemma rx_ended_accepted_header_ok:
  "header_ok (g (rx_ended_accepted cfg now rssi pkt s)) = header_ok (g s)"
  by (simp add: rx_ended_accepted_def Let_def header_ok_frame rx_ended_relay_header_ok)

lemma glossy_tx_ended_header_ok:
  "header_ok (g (glossy_tx_ended cfg now ts s)) = header_ok (g s)"
  "payload_len (g (glossy_tx_ended cfg now ts s)) = payload_len (g s)"
  by (simp_all add: glossy_tx_ended_def Let_def header_ok_frame payload_len_frame
      glossy_stop_payload_len)

text \<open>
  What a good packet does to the caller's buffer: a receiver copies the payload when
  \<open>n_rx\<close> was 0 before the call, and only then.
\<close>

lemma glossy_rx_ended_accepted_payload:
  assumes "snd (process_glossy_header cfg pkt len 1 s) \<noteq> 0"
  shows "payload (g (glossy_rx_ended cfg now rssi ts pkt len s)) =
     (if initiator_id (g s) \<noteq> node_id cfg \<and> n_rx (g s) = 0
      then memcpy (payload (g s))
             (\<lambda>i. pkt ((if GET_SYNC (pkt 0) \<noteq> 0 \<or> GLOSSY_CONF_ALWAYS_RELAY_CNT cfg then 2 else 1) + i))
             (unat (len - (if GET_SYNC (pkt 0) \<noteq> 0 \<or> GLOSSY_CONF_ALWAYS_RELAY_CNT cfg then 2 else 1)))
      else payload (g s))"
    and "header_ok (g (glossy_rx_ended cfg now rssi ts pkt len s)) \<noteq> 0"
    and "payload_len (g (glossy_rx_ended cfg now rssi ts pkt len s)) =
           len - (if GET_SYNC (pkt 0) \<noteq> 0 \<or> GLOSSY_CONF_ALWAYS_RELAY_CNT cfg then 2 else 1)"
proof -
  let ?s1 = "fst (process_glossy_header cfg pkt len 1 (rx_ended_pre cfg ts s))"
  note a1 = glossy_rx_ended_accepted(1) [OF assms, where now = now and rssi = rssi and ts = ts]
  note a = glossy_rx_ended_accepted(2-9) [OF assms, where ts = ts]
  have acc': "snd (process_glossy_header cfg pkt len 1 (rx_ended_pre cfg ts s)) \<noteq> 0"
    unfolding rx_ended_pre_accept by (rule assms)
  have one: "n_rx (g s) + 1 = 1 \<longleftrightarrow> n_rx (g s) = 0"
    by simp
  show "payload (g (glossy_rx_ended cfg now rssi ts pkt len s)) =
     (if initiator_id (g s) \<noteq> node_id cfg \<and> n_rx (g s) = 0
      then memcpy (payload (g s))
             (\<lambda>i. pkt ((if GET_SYNC (pkt 0) \<noteq> 0 \<or> GLOSSY_CONF_ALWAYS_RELAY_CNT cfg then 2 else 1) + i))
             (unat (len - (if GET_SYNC (pkt 0) \<noteq> 0 \<or> GLOSSY_CONF_ALWAYS_RELAY_CNT cfg then 2 else 1)))
      else payload (g s))"
    unfolding a1 rx_ended_accepted_payload
    by (simp only: a one GLOSSY_HEADER_LEN_alt glossy_header_t.simps)
  have "header_ok (g ?s1) \<noteq> 0"
    by (simp add: process_glossy_header_state_crc [OF acc'])
  then show "header_ok (g (glossy_rx_ended cfg now rssi ts pkt len s)) \<noteq> 0"
    by (simp add: a1 rx_ended_accepted_header_ok)
  show "payload_len (g (glossy_rx_ended cfg now rssi ts pkt len s)) =
           len - (if GET_SYNC (pkt 0) \<noteq> 0 \<or> GLOSSY_CONF_ALWAYS_RELAY_CNT cfg then 2 else 1)"
    by (simp add: a1 rx_ended_accepted_frame a)
qed

lemma run_append: "run cfg (xs @ ys) s = run cfg ys (run cfg xs s)"
  by (induction xs arbitrary: s) simp_all

subsection \<open>A long flood without a bound on the transmissions\<close>

lemma u8_unat_255: "unat (n :: u8) = 255 \<Longrightarrow> n + 1 = 0"
proof -
  assume "unat n = 255"
  then have "unat n = unat (255 :: u8)" by simp
  then have "n = 255" by (simp only: word_unat_eq_iff)
  then show ?thesis by simp
qed

lemma pkt_AB_bytes:
  "pkt_AB 0 = 0x80" "pkt_CD 0 = 0x80"
  by (simp_all add: pkt_AB_def pkt_CD_def pkt_of_def)

lemma plain_packet_accepted:
  assumes "pkt_type (header (g s)) = 0x80" "header_ok (g s) = 0 \<longrightarrow> payload_len (g s) = 0"
    and "pkt 0 = 0x80"
  shows "snd (process_glossy_header conf0 pkt 3 1 s) \<noteq> 0"
  using assms
  by (simp add: process_glossy_header_result masks_eval conf0_fields)

lemma plain_packet_received:
  assumes ty: "pkt_type (header (g s)) = 0x80"
    and ok: "header_ok (g s) = 0 \<longrightarrow> payload_len (g s) = 0"
    and p0: "pkt 0 = 0x80"
    and rcv: "initiator_id (g s) = 2"
  shows "n_tx (g (glossy_rx_ended conf0 now rssi ts pkt 3 s)) = n_tx (g s)"
    and "n_rx (g (glossy_rx_ended conf0 now rssi ts pkt 3 s)) = n_rx (g s) + 1"
    and "active (g (glossy_rx_ended conf0 now rssi ts pkt 3 s)) = active (g s)"
    and "pkt_type (header (g (glossy_rx_ended conf0 now rssi ts pkt 3 s))) = 0x80"
    and "initiator_id (g (glossy_rx_ended conf0 now rssi ts pkt 3 s)) = 2"
    and "header_ok (g (glossy_rx_ended conf0 now rssi ts pkt 3 s)) \<noteq> 0"
    and "payload (g (glossy_rx_ended conf0 now rssi ts pkt 3 s)) =
           (if n_rx (g s) = 0 then memcpy (payload (g s)) (\<lambda>i. pkt (1 + i)) 2 else payload (g s))"
proof -
  note acc = plain_packet_accepted [where pkt = pkt and s = s, OF ty ok p0]
  note f = glossy_rx_ended_accepted_fields [OF acc, of now rssi ts]
  note q = glossy_rx_ended_accepted_payload [OF acc, of now rssi ts]
  show "n_tx (g (glossy_rx_ended conf0 now rssi ts pkt 3 s)) = n_tx (g s)" using f by blast
  show "n_rx (g (glossy_rx_ended conf0 now rssi ts pkt 3 s)) = n_rx (g s) + 1" using f by blast
  show "active (g (glossy_rx_ended conf0 now rssi ts pkt 3 s)) = active (g s)"
    using f by (simp add: p0 masks_eval)
  show "pkt_type (header (g (glossy_rx_ended conf0 now rssi ts pkt 3 s))) = 0x80"
    using f by (simp add: p0)
  show "initiator_id (g (glossy_rx_ended conf0 now rssi ts pkt 3 s)) = 2"
    using f rcv by simp
  show "header_ok (g (glossy_rx_ended conf0 now rssi ts pkt 3 s)) \<noteq> 0" by (rule q(2))
  show "payload (g (glossy_rx_ended conf0 now rssi ts pkt 3 s)) =
           (if n_rx (g s) = 0 then memcpy (payload (g s)) (\<lambda>i. pkt (1 + i)) 2 else payload (g s))"
    unfolding q(1) by (simp add: p0 masks_eval conf0_fields rcv)
qed

text \<open>One round on a receiver of the plain flood.\<close>

lemma relay_round_step:
  assumes ty: "pkt_type (header (g s)) = 0x80"
    and ok: "header_ok (g s) = 0 \<longrightarrow> payload_len (g s) = 0"
    and rcv: "initiator_id (g s) = 2"
  shows "n_tx (g (run conf0 relay_round s)) = n_tx (g s) + 1"
    and "n_rx (g (run conf0 relay_round s)) = n_rx (g s) + 1"
    and "active (g (run conf0 relay_round s)) = (if n_tx (g s) + 1 = 0 then 0 else active (g s))"
    and "pkt_type (header (g (run conf0 relay_round s))) = 0x80"
    and "initiator_id (g (run conf0 relay_round s)) = 2"
    and "header_ok (g (run conf0 relay_round s)) \<noteq> 0"
    and "payload (g (run conf0 relay_round s)) =
           (if n_rx (g s) = 0 then memcpy (payload (g s)) (\<lambda>i. pkt_AB (1 + i)) 2 else payload (g s))"
proof -
  note r = plain_packet_received [where pkt = pkt_AB and s = s and now = 0 and rssi = 0 and ts = 0,
      OF ty ok pkt_AB_bytes(1) rcv]
  have run: "run conf0 relay_round s = glossy_tx_ended conf0 0 0 (glossy_rx_ended conf0 0 0 0 pkt_AB 3 s)"
    by (simp add: relay_round_def)
  show "n_tx (g (run conf0 relay_round s)) = n_tx (g s) + 1"
    by (simp add: run glossy_tx_ended_fields r)
  show "n_rx (g (run conf0 relay_round s)) = n_rx (g s) + 1"
    by (simp add: run glossy_tx_ended_fields r)
  show "active (g (run conf0 relay_round s)) = (if n_tx (g s) + 1 = 0 then 0 else active (g s))"
    by (simp add: run glossy_tx_ended_active glossy_tx_ended_fields r masks_eval conf0_fields)
  show "pkt_type (header (g (run conf0 relay_round s))) = 0x80"
    by (simp add: run glossy_tx_ended_fields r)
  show "initiator_id (g (run conf0 relay_round s)) = 2"
    by (simp add: run glossy_tx_ended_fields r)
  show "header_ok (g (run conf0 relay_round s)) \<noteq> 0"
    by (simp add: run glossy_tx_ended_header_ok r)
  show "payload (g (run conf0 relay_round s)) =
           (if n_rx (g s) = 0 then memcpy (payload (g s)) (\<lambda>i. pkt_AB (1 + i)) 2 else payload (g s))"
    by (simp add: run glossy_tx_ended_fields r)
qed

lemma receiver_unknown_payload:
  "payload (g receiver_unknown) = pkt_of []"
  by (simp add: receiver_unknown_def glossy_start_fields)

text \<open>The receiver after \<open>k\<close> rounds, for \<open>k\<close> up to 255.\<close>

lemma relay_rounds:
  "k \<le> 255 \<Longrightarrow>
   active (g (run conf0 (concat (replicate k relay_round)) receiver_unknown)) = 1 \<and>
   unat (n_tx (g (run conf0 (concat (replicate k relay_round)) receiver_unknown))) = k \<and>
   unat (n_rx (g (run conf0 (concat (replicate k relay_round)) receiver_unknown))) = k \<and>
   pkt_type (header (g (run conf0 (concat (replicate k relay_round)) receiver_unknown))) = 0x80 \<and>
   initiator_id (g (run conf0 (concat (replicate k relay_round)) receiver_unknown)) = 2 \<and>
   (header_ok (g (run conf0 (concat (replicate k relay_round)) receiver_unknown)) = 0 \<longrightarrow>
      payload_len (g (run conf0 (concat (replicate k relay_round)) receiver_unknown)) = 0) \<and>
   payload (g (run conf0 (concat (replicate k relay_round)) receiver_unknown)) =
     (if k = 0 then pkt_of [] else memcpy (pkt_of []) (\<lambda>i. pkt_AB (1 + i)) 2)"
proof (induction k)
  case 0
  then show ?case by (simp add: receiver_unknown_fields receiver_unknown_payload)
next
  case (Suc k)
  let ?s = "run conf0 (concat (replicate k relay_round)) receiver_unknown"
  have k: "k \<le> 255" "k < 255" using Suc.prems by simp_all
  note ih = Suc.IH [OF k(1)]
  have ty: "pkt_type (header (g ?s)) = 0x80" using ih by blast
  have ok: "header_ok (g ?s) = 0 \<longrightarrow> payload_len (g ?s) = 0" using ih by blast
  have rcv: "initiator_id (g ?s) = 2" using ih by blast
  have act: "active (g ?s) = 1" using ih by blast
  have ntx: "unat (n_tx (g ?s)) = k" using ih by blast
  have nrx: "unat (n_rx (g ?s)) = k" using ih by blast
  have pl: "payload (g ?s) = (if k = 0 then pkt_of [] else memcpy (pkt_of []) (\<lambda>i. pkt_AB (1 + i)) 2)"
    using ih by blast
  note st = relay_round_step [OF ty ok rcv]
  have "concat (replicate (Suc k) relay_round) = concat (replicate k relay_round @ [relay_round])"
    by (simp only: replicate_append_same replicate_Suc)
  then have "concat (replicate (Suc k) relay_round) = concat (replicate k relay_round) @ relay_round"
    by simp
  then have unf: "run conf0 (concat (replicate (Suc k) relay_round)) receiver_unknown =
             run conf0 relay_round ?s"
    by (simp only: run_append)
  have tx: "unat (n_tx (g ?s) + 1) = Suc k" "n_tx (g ?s) + 1 \<noteq> 0"
    using u8_inc_no_wrap [of "n_tx (g ?s)"] ntx k(2) by simp_all
  have rx: "unat (n_rx (g ?s) + 1) = Suc k"
    using u8_inc_no_wrap [of "n_rx (g ?s)"] nrx k(2) by simp
  have z: "n_rx (g ?s) = 0 \<longleftrightarrow> k = 0"
    using nrx by (simp add: unat_eq_0 [symmetric])
  have c1: "active (g (run conf0 relay_round ?s)) = 1"
    unfolding st(3) using tx(2) act by simp
  have c2: "unat (n_tx (g (run conf0 relay_round ?s))) = Suc k"
    unfolding st(1) by (rule tx(1))
  have c3: "unat (n_rx (g (run conf0 relay_round ?s))) = Suc k"
    unfolding st(2) by (rule rx)
  have c6: "header_ok (g (run conf0 relay_round ?s)) = 0 \<longrightarrow>
            payload_len (g (run conf0 relay_round ?s)) = 0"
    using st(6) by simp
  have c7: "payload (g (run conf0 relay_round ?s)) =
            (if Suc k = 0 then pkt_of [] else memcpy (pkt_of []) (\<lambda>i. pkt_AB (1 + i)) 2)"
  proof (cases "k = 0")
    case True
    have a: "n_rx (g ?s) = 0" using z True by blast
    have b: "payload (g ?s) = pkt_of []" using pl True by simp
    show ?thesis unfolding st(7) a b by simp
  next
    case False
    have a: "n_rx (g ?s) \<noteq> 0" using z False by blast
    have b: "payload (g ?s) = memcpy (pkt_of []) (\<lambda>i. pkt_AB (1 + i)) 2"
      using pl False by simp
    show ?thesis unfolding st(7) b using a by simp
  qed
  show ?case
    unfolding unf
    using c1 c2 c3 st(4) st(5) c6 c7 by blast
qed

lemma rounds_256:
  "run conf0 (concat (replicate 256 relay_round)) receiver_unknown =
   run conf0 relay_round (run conf0 (concat (replicate 255 relay_round)) receiver_unknown)"
proof -
  have "(256 :: nat) = Suc 255" by simp
  then have "concat (replicate 256 relay_round) = concat (replicate 255 relay_round @ [relay_round])"
    by (simp only: replicate_append_same replicate_Suc)
  then have "concat (replicate 256 relay_round) = concat (replicate 255 relay_round) @ relay_round"
    by simp
  then show ?thesis by (simp only: run_append)
qed

lemma after_255_rounds:
  "active (g (run conf0 (concat (replicate 255 relay_round)) receiver_unknown)) = 1"
  "unat (n_tx (g (run conf0 (concat (replicate 255 relay_round)) receiver_unknown))) = 255"
  "unat (n_rx (g (run conf0 (concat (replicate 255 relay_round)) receiver_unknown))) = 255"
  "pkt_type (header (g (run conf0 (concat (replicate 255 relay_round)) receiver_unknown))) = 0x80"
  "initiator_id (g (run conf0 (concat (replicate 255 relay_round)) receiver_unknown)) = 2"
  "header_ok (g (run conf0 (concat (replicate 255 relay_round)) receiver_unknown)) = 0 \<longrightarrow>
     payload_len (g (run conf0 (concat (replicate 255 relay_round)) receiver_unknown)) = 0"
  "payload (g (run conf0 (concat (replicate 255 relay_round)) receiver_unknown)) =
     memcpy (pkt_of []) (\<lambda>i. pkt_AB (1 + i)) 2"
  using relay_rounds [of 255] by simp_all

lemma after_256_rounds:
  "active (g (run conf0 (concat (replicate 256 relay_round)) receiver_unknown)) = 0"
  "n_rx (g (run conf0 (concat (replicate 256 relay_round)) receiver_unknown)) = 0"
  "payload (g (run conf0 (concat (replicate 256 relay_round)) receiver_unknown)) =
     memcpy (pkt_of []) (\<lambda>i. pkt_AB (1 + i)) 2"
proof -
  let ?s = "run conf0 (concat (replicate 255 relay_round)) receiver_unknown"
  note st = relay_round_step [OF after_255_rounds(4) after_255_rounds(6) after_255_rounds(5)]
  have tx: "n_tx (g ?s) + 1 = 0" using after_255_rounds(2) by (rule u8_unat_255)
  have rx: "n_rx (g ?s) + 1 = 0" using after_255_rounds(3) by (rule u8_unat_255)
  have nz: "n_rx (g ?s) \<noteq> 0" using after_255_rounds(3) by (simp add: unat_eq_0 [symmetric])
  show "active (g (run conf0 (concat (replicate 256 relay_round)) receiver_unknown)) = 0"
    unfolding rounds_256 st(3) using tx by simp
  show "n_rx (g (run conf0 (concat (replicate 256 relay_round)) receiver_unknown)) = 0"
    unfolding rounds_256 st(2) by (rule rx)
  show "payload (g (run conf0 (concat (replicate 256 relay_round)) receiver_unknown)) =
     memcpy (pkt_of []) (\<lambda>i. pkt_AB (1 + i)) 2"
    unfolding rounds_256 st(7) using nz after_255_rounds(7) by simp
qed

text \<open>One reception and the transmission that relays it, with all their interrupts.\<close>

theorem unbounded_receiver_stays_active_witness:
  "2 \<noteq> node_id conf0 \<and>
   list_all (carries_n_tx_max 0)
     [Rx_started 100, Header_received 110 pkt_AB 3, Rx_ended 0 0 120 pkt_AB 3,
      Tx_started 130, Tx_ended 0 140] \<and>
   length (filter is_tx_ended [Rx_started 100, Header_received 110 pkt_AB 3,
                               Rx_ended 0 0 120 pkt_AB 3, Tx_started 130, Tx_ended 0 140]) \<le> 255 \<and>
   active (g (run conf0 [Rx_started 100, Header_received 110 pkt_AB 3, Rx_ended 0 0 120 pkt_AB 3,
                         Tx_started 130, Tx_ended 0 140]
                (glossy_start conf0 reads0 2 (pkt_of []) 0 0 0 0 node_zero))) = 1"
proof -
  let ?es = "[Rx_started 100, Header_received 110 pkt_AB 3, Rx_ended 0 0 120 pkt_AB 3,
              Tx_started 130, Tx_ended 0 140]"
  have h1: "2 \<noteq> node_id conf0" by (simp add: conf0_fields)
  have h2: "\<forall>e \<in> set ?es. carries_n_tx_max 0 e" by (simp add: pkt_AB_bytes masks_eval)
  have h3: "length (filter is_tx_ended ?es) \<le> 255" by simp
  have h2l: "list_all (carries_n_tx_max 0) ?es" using h2 by (simp only: list_all_iff)
  show ?thesis
    using h1 h2l h3 unbounded_receiver_stays_active [OF h1 h2 h3, of reads0 "pkt_of []" 0 0 0 node_zero]
    by blast
qed

text \<open>
  C9 as stated fails after 256 rounds: the 256th completed transmission takes the 8-bit
  \<open>n_tx\<close> from 255 to 0, which equals \<open>n_tx_max = 0\<close>, and
  \<^verbatim>\<open>glossy_tx_ended\<close> stops the flood of a receiver.
\<close>

theorem unbounded_receiver_wrap_counterexample:
  "initiator_id (g receiver_unknown) \<noteq> node_id conf0 \<and>
   GET_N_TX_MAX (pkt_type (header (g receiver_unknown))) = 0 \<and>
   active (g receiver_unknown) = 1 \<and>
   GET_N_TX_MAX (pkt_AB 0) = 0 \<and>
   active (g (run conf0 (concat (replicate 256 relay_round)) receiver_unknown)) = 0"
  by (simp add: receiver_unknown_fields conf0_fields masks_eval pkt_AB_bytes after_256_rounds)

lemma glossy_rx_tx_error_header_ok:
  "header_ok (g (glossy_rx_tx_error cfg ts s)) = header_ok (g s)"
  by (simp add: glossy_rx_tx_error_def Let_def)

text \<open>
  C3 at its failing input. In the flood above the receiver's buffer starts with byte 0 and
  holds \<open>AB\<close> after the first round. After 256 rounds the flood has stopped by itself,
  the buffer holds \<open>AB\<close>, and the 8-bit \<open>n_rx\<close> is 0 again: \<^verbatim>\<open>glossy_stop\<close>
  returns 0 for a flood that wrote the buffer. And when, after 255 rounds, a 256th packet
  arrives, its transmission fails and a 257th packet \<open>CD\<close> arrives, \<open>n_rx\<close> becomes 1
  a second time and the buffer is overwritten with \<open>CD\<close>.
\<close>

theorem payload_rewritten_after_n_rx_wrap:
  "payload (g receiver_unknown) 0 = 0 \<and>
   active (g (run conf0 (concat (replicate 256 relay_round)) receiver_unknown)) = 0 \<and>
   n_rx (g (run conf0 (concat (replicate 256 relay_round)) receiver_unknown)) = 0 \<and>
   snd (glossy_stop conf0 0 (run conf0 (concat (replicate 256 relay_round)) receiver_unknown)) = 0 \<and>
   payload (g (run conf0 (concat (replicate 256 relay_round)) receiver_unknown)) 0 = 0x41 \<and>
   payload (g (run conf0 (concat (replicate 255 relay_round)) receiver_unknown)) 0 = 0x41 \<and>
   payload (g (run conf0 [Rx_ended 0 0 0 pkt_AB 3, Rx_tx_error 0, Rx_ended 0 0 0 pkt_CD 3]
                 (run conf0 (concat (replicate 255 relay_round)) receiver_unknown))) 0 = 0x43"
proof -
  let ?s = "run conf0 (concat (replicate 255 relay_round)) receiver_unknown"
  let ?s1 = "glossy_rx_ended conf0 0 0 0 pkt_AB 3 ?s"
  let ?s2 = "glossy_rx_tx_error conf0 0 ?s1"
  have b: "memcpy (pkt_of []) (\<lambda>i. pkt_AB (Suc i)) 2 0 = 0x41"
    by (simp add: memcpy_def pkt_AB_def pkt_of_def)
  have c: "memcpy p (\<lambda>i. pkt_CD (Suc i)) 2 0 = 0x43" for p
    by (simp add: memcpy_def pkt_CD_def pkt_of_def)
  note r1 = plain_packet_received [where pkt = pkt_AB and s = ?s and now = 0 and rssi = 0 and ts = 0,
      OF after_255_rounds(4) after_255_rounds(6) pkt_AB_bytes(1) after_255_rounds(5)]
  have n1: "n_rx (g ?s1) = 0"
    unfolding r1(2) using after_255_rounds(3) by (rule u8_unat_255)
  have ty2: "pkt_type (header (g ?s2)) = 0x80" by (simp add: glossy_rx_tx_error_fields r1)
  have ok2: "header_ok (g ?s2) = 0 \<longrightarrow> payload_len (g ?s2) = 0"
    using r1(6) by (simp add: glossy_rx_tx_error_header_ok)
  have rcv2: "initiator_id (g ?s2) = 2" by (simp add: glossy_rx_tx_error_fields r1)
  have n2: "n_rx (g ?s2) = 0" by (simp add: glossy_rx_tx_error_fields n1)
  note r3 = plain_packet_received [where pkt = pkt_CD and s = ?s2 and now = 0 and rssi = 0 and ts = 0,
      OF ty2 ok2 pkt_AB_bytes(2) rcv2]
  have last: "payload (g (run conf0 [Rx_ended 0 0 0 pkt_AB 3, Rx_tx_error 0, Rx_ended 0 0 0 pkt_CD 3] ?s)) 0
              = 0x43"
    by (simp add: r3(7) n2 c)
  have first: "payload (g receiver_unknown) 0 = 0"
    by (simp add: receiver_unknown_payload pkt_of_def)
  show ?thesis
    using first last
    by (simp add: after_256_rounds after_255_rounds(7) glossy_stop_result b)
qed

subsection \<open>The counters and their bound\<close>









lemma pkt_once_bytes: "pkt_once 0 = 0x81"
  by (simp add: pkt_once_def pkt_of_def)







text \<open>
  The order also matters for \<open>n_tx\<close> on a node that learns \<open>n_tx_max\<close>: if two
  transmissions are reported complete to a receiver that does not know \<open>n_tx_max\<close> yet,
  and a good packet with \<open>n_tx_max = 1\<close> follows, the flood ends with \<open>n_tx = 2\<close>.
\<close>

lemma early_transmissions_exceed_n_tx_max:
  "GET_N_TX_MAX (pkt_type (header (g (fst (glossy_stop conf0 0 (run_while_active conf0
      [Tx_ended 0 10, Tx_ended 0 20, Rx_ended 0 0 120 pkt_once 3] receiver_unknown)))))) = 1 \<and>
   n_tx (g (fst (glossy_stop conf0 0 (run_while_active conf0
      [Tx_ended 0 10, Tx_ended 0 20, Rx_ended 0 0 120 pkt_once 3] receiver_unknown)))) = 2"
proof -
  let ?s1 = "glossy_tx_ended conf0 0 10 receiver_unknown"
  let ?s2 = "glossy_tx_ended conf0 0 20 ?s1"
  let ?s3 = "glossy_rx_ended conf0 0 0 120 pkt_once 3 ?s2"
  note f0 = receiver_unknown_fields
  have a0: "active (g receiver_unknown) \<noteq> 0" by (simp add: f0)
  have s1: "active (g ?s1) = 1" "pkt_type (header (g ?s1)) = 0x80" "n_tx (g ?s1) = 1"
    "header_ok (g ?s1) = 0" "payload_len (g ?s1) = 0"
    by (simp_all add: glossy_tx_ended_active glossy_tx_ended_fields glossy_tx_ended_header_ok f0
        masks_eval)
  have s2: "active (g ?s2) = 1" "pkt_type (header (g ?s2)) = 0x80" "n_tx (g ?s2) = 2"
    "header_ok (g ?s2) = 0" "payload_len (g ?s2) = 0"
    by (simp_all add: glossy_tx_ended_active glossy_tx_ended_fields glossy_tx_ended_header_ok f0
        masks_eval)
  have acc: "snd (process_glossy_header conf0 pkt_once 3 1 ?s2) \<noteq> 0"
    by (simp add: process_glossy_header_result masks_eval conf0_fields pkt_once_bytes s2)
  note f3 = glossy_rx_ended_accepted_fields [OF acc, of 0 0 120]
  have s3: "pkt_type (header (g ?s3)) = 0x81" "n_tx (g ?s3) = 2"
    using f3 by (simp_all add: pkt_once_bytes s2)
  have run: "run_while_active conf0
      [Tx_ended 0 10, Tx_ended 0 20, Rx_ended 0 0 120 pkt_once 3] receiver_unknown = ?s3"
    using a0 by (simp add: s1 s2)
  show ?thesis
    unfolding run by (simp add: glossy_stop_header glossy_stop_n_tx s3 masks_eval)
qed
end
